theory Spec2Isabelle
  imports Complex_Main "HOL-Library.Word"
begin

section \<open>Python values, errors and settings\<close>

type_synonym byte = "8 word"

datatype error = TypeError | ValueError | KeyError | UnboundLocalError | Base64Error

datatype dt_unit = U_Y | U_M | U_W | U_D | U_h | U_m | U_s | U_ms | U_us | U_ns | U_ps | U_fs | U_as

text \<open>
  The dtypes of the model: the fixed-size numeric and temporal dtypes in native byte order,
  \<open>object\<close>, and structured dtypes given by the dtypes of their fields (packed, field
  names left out). String, complex and non-native byte order dtypes are not modelled.
\<close>

datatype dtype =
    Bool8 | Int8 | Int16 | Int32 | Int64 | UInt8 | UInt16 | UInt32 | UInt64
  | Float16 | Float32 | Float64 | Datetime64 dt_unit | Timedelta64 dt_unit
  | Object | Structured "dtype list"

fun unit_name :: "dt_unit \<Rightarrow> string" where
  "unit_name U_Y = ''Y''" | "unit_name U_M = ''M''" | "unit_name U_W = ''W''"
| "unit_name U_D = ''D''" | "unit_name U_h = ''h''" | "unit_name U_m = ''m''"
| "unit_name U_s = ''s''" | "unit_name U_ms = ''ms''" | "unit_name U_us = ''us''"
| "unit_name U_ns = ''ns''" | "unit_name U_ps = ''ps''" | "unit_name U_fs = ''fs''"
| "unit_name U_as = ''as''"

fun kind :: "dtype \<Rightarrow> char" where
  "kind Bool8 = CHR ''b''"
| "kind Int8 = CHR ''i''" | "kind Int16 = CHR ''i''" | "kind Int32 = CHR ''i''" | "kind Int64 = CHR ''i''"
| "kind UInt8 = CHR ''u''" | "kind UInt16 = CHR ''u''" | "kind UInt32 = CHR ''u''" | "kind UInt64 = CHR ''u''"
| "kind Float16 = CHR ''f''" | "kind Float32 = CHR ''f''" | "kind Float64 = CHR ''f''"
| "kind (Datetime64 u) = CHR ''M''"
| "kind (Timedelta64 u) = CHR ''m''"
| "kind Object = CHR ''O''"
| "kind (Structured fs) = CHR ''V''"

fun itemsize :: "dtype \<Rightarrow> nat" where
  "itemsize Bool8 = 1"
| "itemsize Int8 = 1" | "itemsize Int16 = 2" | "itemsize Int32 = 4" | "itemsize Int64 = 8"
| "itemsize UInt8 = 1" | "itemsize UInt16 = 2" | "itemsize UInt32 = 4" | "itemsize UInt64 = 8"
| "itemsize Float16 = 2" | "itemsize Float32 = 4" | "itemsize Float64 = 8"
| "itemsize (Datetime64 u) = 8"
| "itemsize (Timedelta64 u) = 8"
| "itemsize Object = 8"
| "itemsize (Structured fs) = sum_list (map itemsize fs)"

fun decimal :: "nat \<Rightarrow> string" where
  "decimal n =
     (if n < 10 then [char_of (48 + n)]
      else decimal (n div 10) @ [char_of (48 + n mod 10)])"

declare decimal.simps [simp del]

fun dtype_name :: "dtype \<Rightarrow> string" where
  "dtype_name Bool8 = ''bool''"
| "dtype_name Int8 = ''int8''" | "dtype_name Int16 = ''int16''"
| "dtype_name Int32 = ''int32''" | "dtype_name Int64 = ''int64''"
| "dtype_name UInt8 = ''uint8''" | "dtype_name UInt16 = ''uint16''"
| "dtype_name UInt32 = ''uint32''" | "dtype_name UInt64 = ''uint64''"
| "dtype_name Float16 = ''float16''" | "dtype_name Float32 = ''float32''"
| "dtype_name Float64 = ''float64''"
| "dtype_name (Datetime64 u) = ''datetime64['' @ unit_name u @ '']''"
| "dtype_name (Timedelta64 u) = ''timedelta64['' @ unit_name u @ '']''"
| "dtype_name Object = ''object''"
| "dtype_name (Structured fs) = ''void'' @ decimal (8 * sum_list (map itemsize fs))"

definition all_units :: "dt_unit list" where
  "all_units = [U_Y, U_M, U_W, U_D, U_h, U_m, U_s, U_ms, U_us, U_ns, U_ps, U_fs, U_as]"

definition all_dtypes :: "dtype list" where
  "all_dtypes = [Bool8, Int8, Int16, Int32, Int64, UInt8, UInt16, UInt32, UInt64,
                 Float16, Float32, Float64] @ map Datetime64 all_units @ map Timedelta64 all_units"

text \<open>
  \<open>np.dtype(name)\<close> for the names \<open>decode_base64_dict\<close> can be given: the names of the
  fixed-size dtypes that \<open>np.fromstring\<close> reads. Any other string is taken as not
  understood.
\<close>

definition np_dtype :: "string \<Rightarrow> dtype option" where
  "np_dtype name = find (\<lambda>d. dtype_name d = name) all_dtypes"

datatype pyfloat = Fin rat | NegZero | PosInf | NegInf | NaN

text \<open>
  The Python objects an array of dtype \<open>object\<close> can hold in the model: every Python
  value of the model except arrays.
\<close>

datatype pyobj =
    ONone
  | OBool bool
  | OInt int
  | OFloat pyfloat
  | OStr string
  | OList "pyobj list"
  | OTuple "pyobj list"
  | ODict "(string \<times> pyobj) list"

text \<open>
  An array: its dtype, its shape, its elements in row-major order as bytes (little
  endian), the objects its elements refer to when the dtype is \<open>object\<close>, and the
  \<open>C_CONTIGUOUS\<close> flag. A masked array is an array with a mask, \<open>None\<close> for
  \<open>nomask\<close>, of one flag for each element.
\<close>

record ndarray =
  dtype :: dtype
  shape :: "nat list"
  buffer :: "byte list"
  objects :: "pyobj list"
  c_contiguous :: bool

datatype np_array = NDArray ndarray | MaskedArray ndarray "bool list option"

datatype pyval =
    PyNone
  | PyBool bool
  | PyInt int
  | PyFloat pyfloat
  | PyStr string
  | PyList "pyval list"
  | PyTuple "pyval list"
  | PyDict "(string \<times> pyval) list"
  | PyArray np_array
  | PySeries np_array
  | PyItem dtype "byte list"

fun pyval_of :: "pyobj \<Rightarrow> pyval" where
  "pyval_of ONone = PyNone"
| "pyval_of (OBool b) = PyBool b"
| "pyval_of (OInt n) = PyInt n"
| "pyval_of (OFloat x) = PyFloat x"
| "pyval_of (OStr s) = PyStr s"
| "pyval_of (OList xs) = PyList (map pyval_of xs)"
| "pyval_of (OTuple xs) = PyTuple (map pyval_of xs)"
| "pyval_of (ODict kvs) = PyDict (map (\<lambda>kv. (fst kv, pyval_of (snd kv))) kvs)"

record settings =
  use_binary_arrays :: bool
  binary_array_cutoff :: int

definition array_types :: "dtype set" where
  "array_types = {Float32, Float64, UInt8, Int8, UInt16, Int16, UInt32, Int32}"

definition np_size :: "ndarray \<Rightarrow> nat" where
  "np_size a = prod_list (shape a)"

definition max_intp :: int where
  "max_intp = 2 ^ 63 - 1"

definition nonzero_product :: "int list \<Rightarrow> int" where
  "nonzero_product dims = prod_list (map (\<lambda>n. max n 1) dims)"

text \<open>
  The arrays numpy can hold: at most 32 dimensions, a byte size, taken over the non-zero
  dimensions, that fits \<open>npy_intp\<close> (numpy refuses to create any other: "array is too
  big"), a buffer of one element of \<open>itemsize\<close> bytes for each position, and one object
  for each position exactly when the dtype is \<open>object\<close>. Elements of no bytes (a
  structured dtype without fields) are not modelled. The mask of a masked array has one
  flag for each element; masks of structured arrays, which have one flag for each field,
  are not modelled.
\<close>

definition wf_ndarray :: "ndarray \<Rightarrow> bool" where
  "wf_ndarray a \<longleftrightarrow>
     length (shape a) \<le> 32 \<and>
     0 < itemsize (dtype a) \<and>
     int (itemsize (dtype a)) * nonzero_product (map int (shape a)) \<le> max_intp \<and>
     length (buffer a) = np_size a * itemsize (dtype a) \<and>
     length (objects a) = (if dtype a = Object then np_size a else 0)"

fun wf_array :: "np_array \<Rightarrow> bool" where
  "wf_array (NDArray a) = wf_ndarray a"
| "wf_array (MaskedArray a None) = wf_ndarray a"
| "wf_array (MaskedArray a (Some m)) =
     (wf_ndarray a \<and> length m = np_size a \<and> kind (dtype a) \<noteq> CHR ''V'')"

section \<open>base64\<close>

definition b64_alphabet :: string where
  "b64_alphabet = ''ABCDEFGHIJKLMNOPQRSTUVWXYZabcdefghijklmnopqrstuvwxyz0123456789+/''"

definition table_b2a_base64 :: "nat \<Rightarrow> char" where
  "table_b2a_base64 i = b64_alphabet ! i"

fun index_of :: "'a \<Rightarrow> 'a list \<Rightarrow> nat option" where
  "index_of c [] = None"
| "index_of c (x # xs) = (if x = c then Some 0 else map_option Suc (index_of c xs))"

definition table_a2b_base64 :: "char \<Rightarrow> nat option" where
  "table_a2b_base64 c = (if c = CHR ''='' then Some 0 else index_of c b64_alphabet)"

fun b2a_base64 :: "byte list \<Rightarrow> string" where
  "b2a_base64 (a # b # c # rest) =
     [table_b2a_base64 (unat a div 4),
      table_b2a_base64 (unat a mod 4 * 16 + unat b div 16),
      table_b2a_base64 (unat b mod 16 * 4 + unat c div 64),
      table_b2a_base64 (unat c mod 64)] @ b2a_base64 rest"
| "b2a_base64 [a, b] =
     [table_b2a_base64 (unat a div 4),
      table_b2a_base64 (unat a mod 4 * 16 + unat b div 16),
      table_b2a_base64 (unat b mod 16 * 4),
      CHR ''='']"
| "b2a_base64 [a] =
     [table_b2a_base64 (unat a div 4),
      table_b2a_base64 (unat a mod 4 * 16),
      CHR ''='', CHR ''='']"
| "b2a_base64 [] = []"

fun binascii_find_valid :: "string \<Rightarrow> nat \<Rightarrow> char option" where
  "binascii_find_valid [] num = None"
| "binascii_find_valid (c # cs) num =
     (if of_char c \<le> (127::nat) \<and> table_a2b_base64 c \<noteq> None
      then (if num = 0 then Some c else binascii_find_valid cs (num - 1))
      else binascii_find_valid cs num)"

fun a2b_loop :: "nat \<Rightarrow> nat \<Rightarrow> nat \<Rightarrow> byte list \<Rightarrow> string \<Rightarrow> nat \<times> byte list" where
  "a2b_loop quad_pos leftchar leftbits bin_data [] = (leftbits, bin_data)"
| "a2b_loop quad_pos leftchar leftbits bin_data (c # cs) =
     (if of_char c > (127::nat) \<or> c = CHR 0x0D \<or> c = CHR 0x0A \<or> c = CHR '' ''
      then a2b_loop quad_pos leftchar leftbits bin_data cs
      else if c = CHR ''=''
      then (if quad_pos < 2 \<or>
               (quad_pos = 2 \<and> binascii_find_valid (c # cs) 1 \<noteq> Some (CHR ''=''))
            then a2b_loop quad_pos leftchar leftbits bin_data cs
            else (0, bin_data))
      else (case index_of c b64_alphabet of
              None \<Rightarrow> a2b_loop quad_pos leftchar leftbits bin_data cs
            | Some v \<Rightarrow>
                (let quad_pos' = (quad_pos + 1) mod 4;
                     leftchar' = leftchar * 64 + v;
                     leftbits' = leftbits + 6
                 in if leftbits' \<ge> 8
                    then a2b_loop quad_pos' (leftchar' mod 2 ^ (leftbits' - 8)) (leftbits' - 8)
                           (bin_data @ [of_nat (leftchar' div 2 ^ (leftbits' - 8) mod 256)]) cs
                    else a2b_loop quad_pos' leftchar' leftbits' bin_data cs)))"

definition b64encode :: "byte list \<Rightarrow> string" where
  "b64encode s = b2a_base64 s"

definition b64decode :: "string \<Rightarrow> error + byte list" where
  "b64decode s =
     (if \<exists>c \<in> set s. of_char c > (127::nat) then Inl ValueError
      else (case a2b_loop 0 0 0 [] s of
              (leftbits, bin_data) \<Rightarrow> if leftbits \<noteq> 0 then Inl Base64Error else Inr bin_data))"



section \<open>Element views\<close>

definition elements :: "ndarray \<Rightarrow> byte list list" where
  "elements a =
     map (\<lambda>i. take (itemsize (dtype a)) (drop (i * itemsize (dtype a)) (buffer a)))
       [0 ..< length (buffer a) div itemsize (dtype a)]"

fun le_nat :: "byte list \<Rightarrow> nat" where
  "le_nat [] = 0"
| "le_nat (b # bs) = unat b + 256 * le_nat bs"

definition le_int :: "byte list \<Rightarrow> int" where
  "le_int bs =
     (let n = int (le_nat bs); w = 8 * length bs
      in if 2 ^ (w - 1) \<le> n then n - 2 ^ w else n)"

definition pow2 :: "int \<Rightarrow> rat" where
  "pow2 k = (if 0 \<le> k then 2 ^ nat k else 1 / 2 ^ nat (- k))"

definition ieee_decode :: "nat \<Rightarrow> nat \<Rightarrow> nat \<Rightarrow> pyfloat" where
  "ieee_decode eb fb n =
     (let frac = n mod 2 ^ fb;
          ex = n div 2 ^ fb mod 2 ^ eb;
          sign = (n div 2 ^ (fb + eb) mod 2 = 1);
          bias = 2 ^ (eb - 1) - 1
      in if ex = 2 ^ eb - 1
         then (if frac = 0 then (if sign then NegInf else PosInf) else NaN)
         else (let mag = (if ex = 0 then of_nat frac * pow2 (1 - int bias - int fb)
                          else of_nat (2 ^ fb + frac) * pow2 (int ex - int bias - int fb))
               in if sign then (if mag = 0 then NegZero else Fin (- mag)) else Fin mag))"

fun float_of_bytes :: "dtype \<Rightarrow> byte list \<Rightarrow> pyfloat" where
  "float_of_bytes Float16 bs = ieee_decode 5 10 (le_nat bs)"
| "float_of_bytes Float32 bs = ieee_decode 8 23 (le_nat bs)"
| "float_of_bytes Float64 bs = ieee_decode 11 52 (le_nat bs)"
| "float_of_bytes d bs = NaN"

text \<open>
  The Python object \<open>item()\<close> gives for one element: a bool, an int, a float, and for an
  element of a structured dtype the tuple of the items of its fields. \<open>PyItem d bs\<close>
  stands for the object of an element whose Python type the model does not represent (a
  \<open>datetime\<close> or \<open>timedelta\<close>, an object reference inside a structured element).
\<close>

definition scalar_item :: "dtype \<Rightarrow> byte list \<Rightarrow> pyval" where
  "scalar_item d bs =
     (if kind d = CHR ''b'' then PyBool (le_nat bs \<noteq> 0)
      else if kind d = CHR ''u'' then PyInt (int (le_nat bs))
      else if kind d = CHR ''i'' then PyInt (le_int bs)
      else if kind d = CHR ''f'' then PyFloat (float_of_bytes d bs)
      else PyItem d bs)"

fun item :: "dtype \<Rightarrow> byte list \<Rightarrow> pyval"
  and field_items :: "dtype list \<Rightarrow> byte list \<Rightarrow> pyval list"
where
  "item (Structured fs) bs = PyTuple (field_items fs bs)"
| "item d bs = scalar_item d bs"
| "field_items [] bs = []"
| "field_items (f # fs) bs =
     item f (take (itemsize f) bs) # field_items fs (drop (itemsize f) bs)"


section \<open>numpy primitives\<close>

fun nest :: "nat list \<Rightarrow> pyval list \<Rightarrow> pyval" where
  "nest [] xs = (case xs of [] \<Rightarrow> PyNone | x # _ \<Rightarrow> x)"
| "nest (n # ns) xs =
     PyList (map (\<lambda>i. nest ns (take (prod_list ns) (drop (i * prod_list ns) xs))) [0 ..< n])"

definition astype_object :: "ndarray \<Rightarrow> pyval list" where
  "astype_object a =
     (if dtype a = Object then map pyval_of (objects a)
      else map (item (dtype a)) (elements a))"

definition tolist :: "ndarray \<Rightarrow> pyval" where
  "tolist a = nest (shape a) (astype_object a)"

definition np_isnan :: "ndarray \<Rightarrow> bool list" where
  "np_isnan a = map (\<lambda>bs. kind (dtype a) = CHR ''f'' \<and> float_of_bytes (dtype a) bs = NaN) (elements a)"

definition np_isposinf :: "ndarray \<Rightarrow> bool list" where
  "np_isposinf a = map (\<lambda>bs. kind (dtype a) = CHR ''f'' \<and> float_of_bytes (dtype a) bs = PosInf) (elements a)"

definition np_isneginf :: "ndarray \<Rightarrow> bool list" where
  "np_isneginf a = map (\<lambda>bs. kind (dtype a) = CHR ''f'' \<and> float_of_bytes (dtype a) bs = NegInf) (elements a)"

definition np_isfinite :: "ndarray \<Rightarrow> bool list" where
  "np_isfinite a =
     map (\<lambda>bs. kind (dtype a) = CHR ''f'' \<longrightarrow>
            float_of_bytes (dtype a) bs \<notin> {NaN, PosInf, NegInf}) (elements a)"

definition setitem_mask :: "pyval list \<Rightarrow> bool list \<Rightarrow> pyval \<Rightarrow> pyval list" where
  "setitem_mask xs m v = map (\<lambda>(x, b). if b then v else x) (zip xs m)"

fun nan_fill_value :: "dtype \<Rightarrow> byte list option" where
  "nan_fill_value Float64 = Some [0, 0, 0, 0, 0, 0, 0xF8, 0x7F]"
| "nan_fill_value Float32 = Some [0, 0, 0xC0, 0x7F]"
| "nan_fill_value Float16 = Some [0, 0x7E]"
| "nan_fill_value Bool8 = Some [1]"
| "nan_fill_value d = None"

text \<open>
  \<open>array.filled(np.nan)\<close>: with \<open>nomask\<close> the data as they are; otherwise NaN must
  convert to the dtype (it does for floats, for \<open>bool\<close> as \<open>True\<close>, and for
  \<open>object\<close> as the float itself, and fails for integers and temporal dtypes), and
  the masked elements of a copy are overwritten with it when any element is masked.
\<close>

definition filled_nan :: "ndarray \<Rightarrow> bool list option \<Rightarrow> error + ndarray" where
  "filled_nan a msk =
     (case msk of
        None \<Rightarrow> Inr a
      | Some m \<Rightarrow>
          if dtype a = Object
          then (if \<not> (\<exists>b \<in> set m. b) then Inr a
                else Inr (a\<lparr>objects := map (\<lambda>(x, b). if b then OFloat NaN else x)
                                            (zip (objects a) m)\<rparr>))
          else (case nan_fill_value (dtype a) of
                  None \<Rightarrow> Inl TypeError
                | Some fill_value \<Rightarrow>
                    if \<not> (\<exists>b \<in> set m. b) then Inr a
                    else Inr (a\<lparr>buffer := concat (map (\<lambda>(bs, b). if b then fill_value else bs)
                                                     (zip (elements a) m))\<rparr>)))"

definition np_ascontiguousarray :: "ndarray \<Rightarrow> ndarray" where
  "np_ascontiguousarray a = a\<lparr>c_contiguous := True\<rparr>"

text \<open>
  \<open>np.fromstring(s, dtype)\<close> in binary mode: no object arrays, no zero item size, and
  the length of \<open>s\<close> a multiple of the item size; the result is one-dimensional.
\<close>

definition np_fromstring :: "byte list \<Rightarrow> dtype \<Rightarrow> error + ndarray" where
  "np_fromstring s d =
     (if d = Object \<or> itemsize d = 0 then Inl ValueError
      else if length s mod itemsize d \<noteq> 0 then Inl ValueError
      else Inr \<lparr>dtype = d, shape = [length s div itemsize d], buffer = s, objects = [],
                 c_contiguous = True\<rparr>)"

text \<open>
  \<open>array.reshape(dimensions)\<close>, after numpy's \<open>_fix_unknown_dimension\<close>: the known
  size is the product of the non-negative dimensions, multiplied one at a time with
  \<open>npy_mul_sizes_with_overflow\<close>, which fails when the product leaves \<open>npy_intp\<close>; one
  negative dimension is inferred from the size of the array. The array of the new shape
  is then created over the same buffer, which fails ("array is too big") when its byte
  size, taken over the non-zero dimensions, leaves \<open>npy_intp\<close>. Every failure is a
  \<open>ValueError\<close>, as are more than 32 dimensions and a dimension that does not fit
  \<open>npy_intp\<close>.
\<close>

fun known_size :: "int list \<Rightarrow> int \<Rightarrow> int option" where
  "known_size [] s_known = Some s_known"
| "known_size (d # dimensions) s_known =
     (if d < 0 then known_size dimensions s_known
      else if s_known \<noteq> 0 \<and> max_intp div s_known < d then None
      else known_size dimensions (s_known * d))"

definition fix_unknown_dimension :: "int list \<Rightarrow> nat \<Rightarrow> error + nat list" where
  "fix_unknown_dimension dimensions s_original =
     (case known_size dimensions 1 of
        None \<Rightarrow> Inl ValueError
      | Some s_known \<Rightarrow>
          if length (filter (\<lambda>d. d < 0) dimensions) > 1 then Inl ValueError
          else if length (filter (\<lambda>d. d < 0) dimensions) = 1
          then (if s_known = 0 \<or> int s_original mod s_known \<noteq> 0 then Inl ValueError
                else Inr (map (\<lambda>d. if d < 0 then s_original div nat s_known else nat d)
                            dimensions))
          else (if int s_original \<noteq> s_known then Inl ValueError
                else Inr (map nat dimensions)))"

definition np_reshape :: "ndarray \<Rightarrow> int list \<Rightarrow> error + ndarray" where
  "np_reshape a dimensions =
     (if length dimensions > 32 then Inl ValueError
      else if \<exists>d \<in> set dimensions. d < - max_intp - 1 \<or> max_intp < d then Inl ValueError
      else (case fix_unknown_dimension dimensions (np_size a) of
              Inl e \<Rightarrow> Inl e
            | Inr newshape \<Rightarrow>
                if max_intp < int (itemsize (dtype a)) * nonzero_product (map int newshape)
                then Inl ValueError
                else Inr (a\<lparr>shape := newshape\<rparr>)))"

section \<open>The array codec\<close>

definition transform_array_to_list :: "ndarray \<Rightarrow> pyval" where
  "transform_array_to_list array =
     (if kind (dtype array) \<in> {CHR ''u'', CHR ''i'', CHR ''f''} \<and>
         (\<exists>b \<in> set (map Not (np_isfinite array)). b)
      then (let transformed = astype_object array;
                transformed = setitem_mask transformed (np_isnan array) (PyStr ''NaN'');
                transformed = setitem_mask transformed (np_isposinf array) (PyStr ''Infinity'');
                transformed = setitem_mask transformed (np_isneginf array) (PyStr ''-Infinity'')
            in nest (shape array) transformed)
      else tolist array)"

definition encoding_disabled :: "settings \<Rightarrow> ndarray \<Rightarrow> bool" where
  "encoding_disabled settings array =
     (if \<not> use_binary_arrays settings then True
      else if dtype array \<notin> array_types then True
      else (let array_samples = int (prod_list (shape array))
            in array_samples < binary_array_cutoff settings))"

definition encode_base64_dict :: "ndarray \<Rightarrow> pyval" where
  "encode_base64_dict array =
     PyDict [(''__ndarray__'', PyStr (b64encode (buffer array))),
             (''shape'', PyTuple (map (\<lambda>n. PyInt (int n)) (shape array))),
             (''dtype'', PyStr (dtype_name (dtype array)))]"

definition serialize_array :: "settings \<Rightarrow> np_array \<Rightarrow> bool \<Rightarrow> error + pyval" where
  "serialize_array settings array force_list =
     (case (case array of
              MaskedArray a m \<Rightarrow> filled_nan a m
            | NDArray a \<Rightarrow> Inr a) of
        Inl e \<Rightarrow> Inl e
      | Inr array \<Rightarrow>
          if encoding_disabled settings array \<or> force_list
          then Inr (transform_array_to_list array)
          else (let array = (if \<not> c_contiguous array then np_ascontiguousarray array else array)
                in Inr (encode_base64_dict array)))"

fun py_len :: "pyval \<Rightarrow> error + nat" where
  "py_len (PyList xs) = Inr (length xs)"
| "py_len (PyTuple xs) = Inr (length xs)"
| "py_len (PyStr s) = Inr (length s)"
| "py_len (PyDict kvs) = Inr (length kvs)"
| "py_len v = Inl TypeError"

fun py_ints :: "pyval list \<Rightarrow> error + int list" where
  "py_ints [] = Inr []"
| "py_ints (PyInt n # xs) = (case py_ints xs of Inl e \<Rightarrow> Inl e | Inr ns \<Rightarrow> Inr (n # ns))"
| "py_ints (v # xs) = Inl TypeError"

fun shape_arg :: "pyval \<Rightarrow> error + int list" where
  "shape_arg (PyList xs) = py_ints xs"
| "shape_arg (PyTuple xs) = py_ints xs"
| "shape_arg v = Inl TypeError"

definition decode_base64_dict :: "(string \<times> pyval) list \<Rightarrow> error + ndarray" where
  "decode_base64_dict data =
     (case map_of data ''__ndarray__'' of
        None \<Rightarrow> Inl KeyError
      | Some (PyStr s) \<Rightarrow>
          (case b64decode s of
             Inl e \<Rightarrow> Inl e
           | Inr b64 \<Rightarrow>
               (case map_of data ''dtype'' of
                  None \<Rightarrow> Inl KeyError
                | Some (PyStr name) \<Rightarrow>
                    (case np_dtype name of
                       None \<Rightarrow> Inl TypeError
                     | Some d \<Rightarrow>
                         (case np_fromstring b64 d of
                            Inl e \<Rightarrow> Inl e
                          | Inr array \<Rightarrow>
                              (case map_of data ''shape'' of
                                 None \<Rightarrow> Inl KeyError
                               | Some shp \<Rightarrow>
                                   (case py_len shp of
                                      Inl e \<Rightarrow> Inl e
                                    | Inr n \<Rightarrow>
                                        if n > 1
                                        then (case shape_arg shp of
                                                Inl e \<Rightarrow> Inl e
                                              | Inr dims \<Rightarrow> np_reshape array dims)
                                        else Inr array))))
                | Some other \<Rightarrow> Inl TypeError))
      | Some other \<Rightarrow> Inl TypeError)"


section \<open>Temporal conversion\<close>

definition wrap64 :: "int \<Rightarrow> int" where
  "wrap64 x = (x + 2 ^ 63) mod 2 ^ 64 - 2 ^ 63"

definition NaT :: int where
  "NaT = - (2 ^ 63)"

definition is_leapyear :: "int \<Rightarrow> bool" where
  "is_leapyear year \<longleftrightarrow> year mod 4 = 0 \<and> (year mod 100 \<noteq> 0 \<or> year mod 400 = 0)"

definition days_before_year :: "int \<Rightarrow> int" where
  "days_before_year year =
     (let y = year - 1
      in 365 * (year - 1970) + (y div 4 - y div 100 + y div 400) - 477)"

definition days_before_month :: "bool \<Rightarrow> nat \<Rightarrow> int" where
  "days_before_month leap month =
     sum_list (take month (if leap then [31, 29, 31, 30, 31, 30, 31, 31, 30, 31, 30, 31]
                           else [31, 28, 31, 30, 31, 30, 31, 31, 30, 31, 30, 31]))"

fun units_per_day :: "dt_unit \<Rightarrow> int \<times> int" where
  "units_per_day U_W = (1, 7)"
| "units_per_day U_D = (1, 1)"
| "units_per_day U_h = (24, 1)"
| "units_per_day U_m = (1440, 1)"
| "units_per_day U_s = (86400, 1)"
| "units_per_day U_ms = (86400000, 1)"
| "units_per_day U_us = (86400000000, 1)"
| "units_per_day U_ns = (86400000000000, 1)"
| "units_per_day U_ps = (86400000000000000, 1)"
| "units_per_day U_fs = (86400000000000000000, 1)"
| "units_per_day U_as = (86400000000000000000000, 1)"
| "units_per_day U_Y = (400, 146097)"
| "units_per_day U_M = (4800, 146097)"

definition scale_units :: "dt_unit \<Rightarrow> dt_unit \<Rightarrow> int \<Rightarrow> int" where
  "scale_units src dst x =
     (case (units_per_day src, units_per_day dst) of
        ((sn, sd), (dn, dd)) \<Rightarrow> (x * (dn * sd)) div (dd * sn))"

definition days_of_datetime :: "dt_unit \<Rightarrow> int \<Rightarrow> int" where
  "days_of_datetime src x =
     (if src = U_Y then days_before_year (1970 + x)
      else (let year = 1970 + x div 12
            in days_before_year year + days_before_month (is_leapyear year) (nat (x mod 12))))"

definition cast_datetime :: "dt_unit \<Rightarrow> dt_unit \<Rightarrow> int \<Rightarrow> int" where
  "cast_datetime src dst x =
     (if x = NaT \<or> src = dst then x
      else if src = U_Y \<or> src = U_M then wrap64 (scale_units U_D dst (days_of_datetime src x))
      else wrap64 (scale_units src dst x))"

definition cast_timedelta :: "dt_unit \<Rightarrow> dt_unit \<Rightarrow> int \<Rightarrow> int" where
  "cast_timedelta src dst x =
     (if x = NaT \<or> src = dst then x else wrap64 (scale_units src dst x))"


section \<open>Floating-point division\<close>

fun bit_length :: "nat \<Rightarrow> nat" where
  "bit_length n = (if n = 0 then 0 else Suc (bit_length (n div 2)))"

declare bit_length.simps [simp del]

definition floor_log2_adjust :: "int \<Rightarrow> int \<Rightarrow> int \<Rightarrow> int" where
  "floor_log2_adjust n d k =
     (if (if 0 \<le> k then d * 2 ^ nat k \<le> n else d \<le> n * 2 ^ nat (- k)) then k else k - 1)"

definition floor_log2 :: "int \<Rightarrow> int \<Rightarrow> int" where
  "floor_log2 n d = floor_log2_adjust n d (int (bit_length (nat n)) - int (bit_length (nat d)))"

definition round_half_even_rem :: "int \<Rightarrow> int \<Rightarrow> int \<Rightarrow> int" where
  "round_half_even_rem q r d =
     (if 2 * r < d then q else if d < 2 * r then q + 1 else if even q then q else q + 1)"

definition round_half_even :: "int \<Rightarrow> int \<Rightarrow> int" where
  "round_half_even n d = round_half_even_rem (n div d) (n mod d) d"

definition ieee_pack :: "nat \<Rightarrow> nat \<Rightarrow> nat \<Rightarrow> int \<Rightarrow> nat \<Rightarrow> nat" where
  "ieee_pack eb fb sign e sig =
     (if int (2 ^ (eb - 1) - 1) < e then sign + (2 ^ eb - 1) * 2 ^ fb
      else if sig < 2 ^ fb then sign + sig
      else sign + nat (e + int (2 ^ (eb - 1) - 1)) * 2 ^ fb + (sig - 2 ^ fb))"

definition ieee_normalise :: "nat \<Rightarrow> nat \<Rightarrow> nat \<Rightarrow> int \<Rightarrow> nat \<Rightarrow> nat" where
  "ieee_normalise eb fb sign e sig =
     (if sig < 2 ^ (fb + 1) then ieee_pack eb fb sign e sig
      else ieee_pack eb fb sign (e + 1) (2 ^ fb))"

definition ieee_round :: "nat \<Rightarrow> nat \<Rightarrow> nat \<Rightarrow> int \<Rightarrow> int \<Rightarrow> int \<Rightarrow> nat" where
  "ieee_round eb fb sign m d e =
     ieee_normalise eb fb sign e
       (nat (if e \<le> int fb then round_half_even (m * 2 ^ nat (int fb - e)) d
             else round_half_even m (d * 2 ^ nat (e - int fb))))"

definition ieee_encode :: "nat \<Rightarrow> nat \<Rightarrow> int \<Rightarrow> int \<Rightarrow> nat" where
  "ieee_encode eb fb n d =
     ieee_round eb fb (if n < 0 then 2 ^ (eb + fb) else 0) \<bar>n\<bar> d
       (if n = 0 then 1 - int (2 ^ (eb - 1) - 1)
        else max (1 - int (2 ^ (eb - 1) - 1)) (floor_log2 \<bar>n\<bar> d))"

definition nat_le_bytes :: "nat \<Rightarrow> nat \<Rightarrow> byte list" where
  "nat_le_bytes k n = map (\<lambda>i. of_nat (n div 256 ^ i mod 256)) [0 ..< k]"

definition float64_scaled :: "int \<Rightarrow> int \<Rightarrow> int \<Rightarrow> int \<times> int" where
  "float64_scaled sign m e =
     (if 0 \<le> e then (sign * m * 2 ^ nat e, 1) else (sign * m, 2 ^ nat (- e)))"

definition float64_fraction :: "nat \<Rightarrow> int \<times> int" where
  "float64_fraction bits =
     float64_scaled (if bits div 2 ^ 63 mod 2 = 1 then - 1 else 1)
       (if bits div 2 ^ 52 mod 2 ^ 11 = 0 then int (bits mod 2 ^ 52)
        else 2 ^ 52 + int (bits mod 2 ^ 52))
       (if bits div 2 ^ 52 mod 2 ^ 11 = 0 then - 1074
        else int (bits div 2 ^ 52 mod 2 ^ 11) - 1075)"

fun divide_fraction :: "int \<times> int \<Rightarrow> int \<Rightarrow> nat" where
  "divide_fraction (n, d) divisor = ieee_encode 11 52 n (d * divisor)"

definition true_divide_int64 :: "int \<Rightarrow> int \<Rightarrow> nat" where
  "true_divide_int64 x divisor = divide_fraction (float64_fraction (ieee_encode 11 52 x 1)) divisor"


section \<open>Temporal arrays\<close>

definition int64_bytes :: "int \<Rightarrow> byte list" where
  "int64_bytes x = nat_le_bytes 8 (nat (x mod 2 ^ 64))"

definition map_elements :: "(byte list \<Rightarrow> byte list) \<Rightarrow> ndarray \<Rightarrow> byte list" where
  "map_elements f a = concat (map f (elements a))"

definition astype_datetime64 :: "dt_unit \<Rightarrow> ndarray \<Rightarrow> ndarray" where
  "astype_datetime64 dst a =
     (case dtype a of
        Datetime64 src \<Rightarrow>
          a\<lparr>dtype := Datetime64 dst,
            buffer := map_elements (\<lambda>bs. int64_bytes (cast_datetime src dst (le_int bs))) a\<rparr>
      | _ \<Rightarrow> a)"

definition astype_timedelta64 :: "dt_unit \<Rightarrow> ndarray \<Rightarrow> ndarray" where
  "astype_timedelta64 dst a =
     (case dtype a of
        Timedelta64 src \<Rightarrow>
          a\<lparr>dtype := Timedelta64 dst,
            buffer := map_elements (\<lambda>bs. int64_bytes (cast_timedelta src dst (le_int bs))) a\<rparr>
      | _ \<Rightarrow> a)"

definition astype_int64 :: "ndarray \<Rightarrow> ndarray" where
  "astype_int64 a = a\<lparr>dtype := Int64\<rparr>"

definition true_divide :: "ndarray \<Rightarrow> int \<Rightarrow> ndarray" where
  "true_divide a divisor =
     a\<lparr>dtype := Float64,
       buffer := map_elements (\<lambda>bs. nat_le_bytes 8 (true_divide_int64 (le_int bs) divisor)) a\<rparr>"

fun map_array :: "(ndarray \<Rightarrow> ndarray) \<Rightarrow> np_array \<Rightarrow> np_array" where
  "map_array f (NDArray a) = NDArray (f a)"
| "map_array f (MaskedArray a m) = MaskedArray (f a) m"

fun np_dtype_of :: "np_array \<Rightarrow> dtype" where
  "np_dtype_of (NDArray a) = dtype a"
| "np_dtype_of (MaskedArray a m) = dtype a"

fun np_shape_of :: "np_array \<Rightarrow> nat list" where
  "np_shape_of (NDArray a) = shape a"
| "np_shape_of (MaskedArray a m) = shape a"

definition legacy_datetime64 :: bool where
  "legacy_datetime64 = (let dt2001 = (31 :: int) in dt2001 = cast_datetime U_Y U_ms dt2001)"

definition transform_array :: "settings \<Rightarrow> np_array \<Rightarrow> bool \<Rightarrow> error + pyval" where
  "transform_array settings obj force_list =
     (if kind (np_dtype_of obj) = CHR ''M''
      then (if legacy_datetime64
            then (if np_dtype_of obj = Datetime64 U_ns
                  then serialize_array settings
                         (map_array (\<lambda>a. true_divide (astype_int64 a) 1000000) obj) force_list
                  else Inl UnboundLocalError)
            else serialize_array settings
                   (map_array (\<lambda>a. true_divide (astype_int64 (astype_datetime64 U_us a)) 1000) obj)
                   force_list)
      else if kind (np_dtype_of obj) = CHR ''m''
      then serialize_array settings
             (map_array (\<lambda>a. true_divide (astype_int64 (astype_timedelta64 U_us a)) 1000) obj)
             force_list
      else serialize_array settings obj force_list)"

definition transform_series :: "settings \<Rightarrow> np_array \<Rightarrow> error + pyval" where
  "transform_series settings vals = transform_array settings vals False"

section \<open>Nested traversal\<close>

fun is_ndarray :: "pyval \<Rightarrow> bool" where
  "is_ndarray (PyArray a) = True"
| "is_ndarray v = False"

fun sequence_list :: "(error + 'a) list \<Rightarrow> error + 'a list" where
  "sequence_list [] = Inr []"
| "sequence_list (Inl e # rs) = Inl e"
| "sequence_list (Inr v # rs) =
     (case sequence_list rs of Inl e \<Rightarrow> Inl e | Inr vs \<Rightarrow> Inr (v # vs))"

fun transform_element :: "settings \<Rightarrow> pyval \<Rightarrow> error + pyval" where
  "transform_element settings (PyArray el) = transform_array settings el False"
| "transform_element settings v = Inl TypeError"

fun traverse_data :: "settings \<Rightarrow> bool \<Rightarrow> bool \<Rightarrow> pyval list \<Rightarrow> error + pyval"
  and traverse_items :: "settings \<Rightarrow> pyval list \<Rightarrow> error + pyval list"
where
  "traverse_data settings is_numpy use_numpy datum =
     (if (is_numpy \<and> use_numpy) \<and> list_all is_ndarray datum
      then (case sequence_list (map (transform_element settings) datum) of
              Inl e \<Rightarrow> Inl e
            | Inr results \<Rightarrow> Inr (PyList results))
      else (case traverse_items settings datum of
              Inl e \<Rightarrow> Inl e
            | Inr datum_copy \<Rightarrow> Inr (PyList datum_copy)))"
| "traverse_items settings [] = Inr []"
| "traverse_items settings (PyList xs # rest) =
     (case traverse_data settings True True xs of
        Inl e \<Rightarrow> Inl e
      | Inr v \<Rightarrow> (case traverse_items settings rest of Inl e \<Rightarrow> Inl e | Inr vs \<Rightarrow> Inr (v # vs)))"
| "traverse_items settings (PyTuple xs # rest) =
     (case traverse_data settings True True xs of
        Inl e \<Rightarrow> Inl e
      | Inr v \<Rightarrow> (case traverse_items settings rest of Inl e \<Rightarrow> Inl e | Inr vs \<Rightarrow> Inr (v # vs)))"
| "traverse_items settings (PyFloat x # rest) =
     (case traverse_items settings rest of
        Inl e \<Rightarrow> Inl e
      | Inr vs \<Rightarrow>
          Inr ((if x = NaN then PyStr ''NaN''
                else if x = PosInf then PyStr ''Infinity''
                else if x = NegInf then PyStr ''-Infinity''
                else PyFloat x) # vs))"
| "traverse_items settings (v # rest) =
     (case traverse_items settings rest of Inl e \<Rightarrow> Inl e | Inr vs \<Rightarrow> Inr (v # vs))"

section \<open>Column data\<close>

fun transform_column :: "settings \<Rightarrow> pyval \<Rightarrow> error + pyval" where
  "transform_column settings (PySeries vals) = transform_series settings vals"
| "transform_column settings (PyArray a) = transform_array settings a False"
| "transform_column settings (PyList xs) = traverse_data settings True True xs"
| "transform_column settings (PyTuple xs) = traverse_data settings True True xs"
| "transform_column settings (PyStr s) = traverse_data settings True True (map (\<lambda>c. PyStr [c]) s)"
| "transform_column settings (PyDict kvs) = traverse_data settings True True (map (\<lambda>kv. PyStr (fst kv)) kvs)"
| "transform_column settings v = Inl TypeError"

fun transform_column_source_data :: "settings \<Rightarrow> (string \<times> pyval) list \<Rightarrow> error + (string \<times> pyval) list" where
  "transform_column_source_data settings [] = Inr []"
| "transform_column_source_data settings ((key, v) # rest) =
     (case transform_column settings v of
        Inl e \<Rightarrow> Inl e
      | Inr v' \<Rightarrow>
          (case transform_column_source_data settings rest of
             Inl e \<Rightarrow> Inl e
           | Inr data_copy \<Rightarrow> Inr ((key, v') # data_copy)))"

fun is_envelope :: "pyval \<Rightarrow> bool" where
  "is_envelope (PyDict kvs) = (''__ndarray__'' \<in> set (map fst kvs))"
| "is_envelope v = False"

fun decode_element :: "pyval \<Rightarrow> error + pyval" where
  "decode_element (PyDict kvs) =
     (if ''__ndarray__'' \<in> set (map fst kvs)
      then (case decode_base64_dict kvs of Inl e \<Rightarrow> Inl e | Inr a \<Rightarrow> Inr (PyArray (NDArray a)))
      else Inr (PyDict kvs))"
| "decode_element el = Inr el"

fun decode_column :: "pyval \<Rightarrow> error + pyval" where
  "decode_column (PyDict kvs) =
     (if ''__ndarray__'' \<in> set (map fst kvs)
      then (case decode_base64_dict kvs of Inl e \<Rightarrow> Inl e | Inr a \<Rightarrow> Inr (PyArray (NDArray a)))
      else Inr (PyDict kvs))"
| "decode_column (PyList els) =
     (case sequence_list (map decode_element els) of
        Inl e \<Rightarrow> Inl e
      | Inr new_list \<Rightarrow> Inr (PyList new_list))"
| "decode_column v = Inr v"

fun decode_column_data :: "(string \<times> pyval) list \<Rightarrow> error + (string \<times> pyval) list" where
  "decode_column_data [] = Inr []"
| "decode_column_data ((k, v) # rest) =
     (case decode_column v of
        Inl e \<Rightarrow> Inl e
      | Inr v' \<Rightarrow>
          (case decode_column_data rest of
             Inl e \<Rightarrow> Inl e
           | Inr new_data \<Rightarrow> Inr ((k, v') # new_data)))"


section \<open>Notions used in the statements\<close>

fun is_list :: "pyval \<Rightarrow> bool" where
  "is_list (PyList xs) = True"
| "is_list v = False"

definition list_path :: "settings \<Rightarrow> np_array \<Rightarrow> bool \<Rightarrow> bool" where
  "list_path settings arr force_list \<longleftrightarrow>
     \<not> use_binary_arrays settings \<or> force_list \<or> np_dtype_of arr \<notin> array_types \<or>
     int (prod_list (np_shape_of arr)) < binary_array_cutoff settings"


definition sentinel :: "pyfloat \<Rightarrow> pyval" where
  "sentinel x =
     (case x of
        NaN \<Rightarrow> PyStr ''NaN''
      | PosInf \<Rightarrow> PyStr ''Infinity''
      | NegInf \<Rightarrow> PyStr ''-Infinity''
      | _ \<Rightarrow> PyFloat x)"

definition is_finite :: "pyfloat \<Rightarrow> bool" where
  "is_finite x \<longleftrightarrow> x \<noteq> NaN \<and> x \<noteq> PosInf \<and> x \<noteq> NegInf"

fun traverse_spec :: "pyval \<Rightarrow> pyval" where
  "traverse_spec (PyList xs) = PyList (map traverse_spec xs)"
| "traverse_spec (PyTuple xs) = PyList (map traverse_spec xs)"
| "traverse_spec (PyFloat x) = sentinel x"
| "traverse_spec v = v"

fun not_uniform_arrays :: "pyval \<Rightarrow> bool" where
  "not_uniform_arrays (PyList xs) =
     ((xs = [] \<or> \<not> list_all is_ndarray xs) \<and> (\<forall>x \<in> set xs. not_uniform_arrays x))"
| "not_uniform_arrays (PyTuple xs) =
     ((xs = [] \<or> \<not> list_all is_ndarray xs) \<and> (\<forall>x \<in> set xs. not_uniform_arrays x))"
| "not_uniform_arrays v = True"

text \<open>
  \<open>rebuilt v r\<close>: \<open>r\<close> has a list wherever \<open>v\<close> has a list or a tuple, with one entry
  for each entry of it, and so on inside these; values of \<open>v\<close> that are not sequences
  are not constrained.
\<close>

fun rebuilt :: "pyval \<Rightarrow> pyval \<Rightarrow> bool" where
  "rebuilt (PyList xs) r = (case r of PyList rs \<Rightarrow> list_all2 rebuilt xs rs | _ \<Rightarrow> False)"
| "rebuilt (PyTuple xs) r = (case r of PyList rs \<Rightarrow> list_all2 rebuilt xs rs | _ \<Rightarrow> False)"
| "rebuilt v r = True"

fun element_decoded :: "pyval \<Rightarrow> pyval \<Rightarrow> bool" where
  "element_decoded (PyDict kvs) el' =
     (if is_envelope (PyDict kvs)
      then (case decode_base64_dict kvs of
              Inl e \<Rightarrow> False
            | Inr a \<Rightarrow> el' = PyArray (NDArray a))
      else el' = PyDict kvs)"
| "element_decoded el el' = (el' = el)"

fun column_decoded :: "pyval \<Rightarrow> pyval \<Rightarrow> bool" where
  "column_decoded (PyDict kvs) v' = element_decoded (PyDict kvs) v'"
| "column_decoded (PyList els) v' =
     (case v' of PyList els' \<Rightarrow> list_all2 element_decoded els els' | _ \<Rightarrow> False)"
| "column_decoded v v' = (v' = v)"

definition entry_decoded :: "string \<times> pyval \<Rightarrow> string \<times> pyval \<Rightarrow> bool" where
  "entry_decoded kv kv' \<longleftrightarrow> fst kv' = fst kv \<and> column_decoded (snd kv) (snd kv')"



section \<open>Properties of the base64 model\<close>

lemma index_of_nth: "distinct xs \<Longrightarrow> i < length xs \<Longrightarrow> index_of (xs ! i) xs = Some i"
proof (induction xs arbitrary: i)
  case Nil then show ?case by simp
next
  case (Cons x xs)
  show ?case
  proof (cases i)
    case 0 then show ?thesis by simp
  next
    case (Suc j)
    with Cons.prems have "xs ! j \<noteq> x" "distinct xs" "j < length xs" by auto
    with Cons.IH[of j] Suc show ?thesis by auto
  qed
qed

lemma b64_alphabet_distinct: "distinct b64_alphabet"
  by (simp add: b64_alphabet_def)

lemma b64_alphabet_length: "length b64_alphabet = 64"
  by (simp add: b64_alphabet_def)

lemma index_of_table: "i < 64 \<Longrightarrow> index_of (table_b2a_base64 i) b64_alphabet = Some i"
  unfolding table_b2a_base64_def
  by (rule index_of_nth) (simp_all add: b64_alphabet_distinct b64_alphabet_length)

lemma b64_alphabet_plain:
  "c \<in> set b64_alphabet \<Longrightarrow> \<not> of_char c > (127::nat) \<and> c \<noteq> CHR 0x0D \<and> c \<noteq> CHR 0x0A \<and> c \<noteq> CHR '' '' \<and> c \<noteq> CHR ''=''"
  by (auto simp add: b64_alphabet_def)

lemma table_plain:
  assumes "i < 64"
  shows "\<not> of_char (table_b2a_base64 i) > (127::nat)" "table_b2a_base64 i \<noteq> CHR 0x0D"
    "table_b2a_base64 i \<noteq> CHR 0x0A" "table_b2a_base64 i \<noteq> CHR '' ''" "table_b2a_base64 i \<noteq> CHR ''=''"
proof -
  have "table_b2a_base64 i \<in> set b64_alphabet"
    unfolding table_b2a_base64_def using assms by (simp add: b64_alphabet_length)
  from b64_alphabet_plain[OF this] show "\<not> of_char (table_b2a_base64 i) > (127::nat)" "table_b2a_base64 i \<noteq> CHR 0x0D"
    "table_b2a_base64 i \<noteq> CHR 0x0A" "table_b2a_base64 i \<noteq> CHR '' ''" "table_b2a_base64 i \<noteq> CHR ''=''" by auto
qed

lemma a2b_step:
  assumes "v < 64"
  shows "a2b_loop qp lc lb out (table_b2a_base64 v # cs) =
     (if lb + 6 \<ge> 8
      then a2b_loop ((qp + 1) mod 4) ((lc * 64 + v) mod 2 ^ (lb + 6 - 8)) (lb + 6 - 8)
             (out @ [of_nat ((lc * 64 + v) div 2 ^ (lb + 6 - 8) mod 256)]) cs
      else a2b_loop ((qp + 1) mod 4) (lc * 64 + v) (lb + 6) out cs)"
  using table_plain[OF assms] index_of_table[OF assms]
  by (simp add: Let_def)


lemma byte_arith:
  fixes a b c :: nat
  assumes "a < 256" "b < 256" "c < 256"
  shows "(a div 4 * 64 + (a mod 4 * 16 + b div 16)) div 16 mod 256 = a"
    and "(a div 4 * 64 + (a mod 4 * 16 + b div 16)) mod 16 = b div 16"
    and "(b div 16 * 64 + (b mod 16 * 4 + c div 64)) div 4 mod 256 = b"
    and "(b div 16 * 64 + (b mod 16 * 4 + c div 64)) mod 4 = c div 64"
    and "(c div 64 * 64 + c mod 64) mod 256 = c"
    and "(a div 4 * 64 + a mod 4 * 16) div 16 mod 256 = a"
    and "(a div 4 * 64 + a mod 4 * 16) mod 16 = 0"
    and "(b div 16 * 64 + b mod 16 * 4) div 4 mod 256 = b"
    and "(b div 16 * 64 + b mod 16 * 4) mod 4 = 0"
proof -
  have a: "a div 4 * 64 + a mod 4 * 16 = a * 16"
    using div_mult_mod_eq[of a 4] by linarith
  have b: "b div 16 * 64 + b mod 16 * 4 = b * 4"
    using div_mult_mod_eq[of b 16] by linarith
  have bh: "b div 16 < 16" using assms(2) by simp
  have ch: "c div 64 < 4" using assms(3) by simp
  have ab: "a div 4 * 64 + (a mod 4 * 16 + b div 16) = a * 16 + b div 16"
    using a by linarith
  have bc: "b div 16 * 64 + (b mod 16 * 4 + c div 64) = b * 4 + c div 64"
    using b by linarith
  show "(a div 4 * 64 + (a mod 4 * 16 + b div 16)) div 16 mod 256 = a"
    unfolding ab using bh assms(1) by simp
  show "(a div 4 * 64 + (a mod 4 * 16 + b div 16)) mod 16 = b div 16"
    unfolding ab using bh by simp
  show "(b div 16 * 64 + (b mod 16 * 4 + c div 64)) div 4 mod 256 = b"
    unfolding bc using ch assms(2) by simp
  show "(b div 16 * 64 + (b mod 16 * 4 + c div 64)) mod 4 = c div 64"
    unfolding bc using ch by simp
  show "(c div 64 * 64 + c mod 64) mod 256 = c"
    using assms(3) by simp
  show "(a div 4 * 64 + a mod 4 * 16) div 16 mod 256 = a"
    unfolding a using assms(1) by simp
  show "(a div 4 * 64 + a mod 4 * 16) mod 16 = 0"
    unfolding a by simp
  show "(b div 16 * 64 + b mod 16 * 4) div 4 mod 256 = b"
    unfolding b using assms(2) by simp
  show "(b div 16 * 64 + b mod 16 * 4) mod 4 = 0"
    unfolding b by simp
qed

lemma table_bounds:
  fixes a b c :: nat
  assumes "a < 256" "b < 256" "c < 256"
  shows "a div 4 < 64" "a mod 4 * 16 + b div 16 < 64" "b mod 16 * 4 + c div 64 < 64" "c mod 64 < 64"
    "a mod 4 * 16 < 64" "b mod 16 * 4 < 64"
proof -
  have "a mod 4 < 4" "b div 16 < 16" "b mod 16 < 16" "c div 64 < 4" using assms by simp_all
  then show "a mod 4 * 16 + b div 16 < 64" "b mod 16 * 4 + c div 64 < 64" "a mod 4 * 16 < 64" "b mod 16 * 4 < 64"
    by linarith+
  show "a div 4 < 64" using assms(1) by simp
  show "c mod 64 < 64" by simp
qed

lemma unat_byte_less: "unat (x :: byte) < 256"
  using unsigned_less[of x, where ?'a = nat] by simp



lemma a2b_pad:
  "a2b_loop qp lc lb out (CHR ''='' # cs) =
     (if qp < 2 \<or> (qp = 2 \<and> binascii_find_valid (CHR ''='' # cs) 1 \<noteq> Some (CHR ''=''))
      then a2b_loop qp lc lb out cs else (0, out))"
  by simp

lemma a2b_quad:
  assumes "v0 < 64" "v1 < 64" "v2 < 64" "v3 < 64"
  shows "a2b_loop 0 0 0 out (table_b2a_base64 v0 # table_b2a_base64 v1 # table_b2a_base64 v2 # table_b2a_base64 v3 # cs) =
         a2b_loop 0 0 0
           (out @ [of_nat ((v0 * 64 + v1) div 16 mod 256), of_nat (((v0 * 64 + v1) mod 16 * 64 + v2) div 4 mod 256),
                   of_nat ((((v0 * 64 + v1) mod 16 * 64 + v2) mod 4 * 64 + v3) mod 256)]) cs"
  by (simp add: a2b_step assms del: a2b_loop.simps)

lemma a2b_loop_b2a:
  "a2b_loop 0 0 0 out (b2a_base64 bs) = (0, out @ bs)"
proof (induction bs arbitrary: out rule: b2a_base64.induct)
  case (1 a b c rest)
  note bd = table_bounds[OF unat_byte_less[of a] unat_byte_less[of b] unat_byte_less[of c]]
  note ar = byte_arith[OF unat_byte_less[of a] unat_byte_less[of b] unat_byte_less[of c]]
  show ?case
    by (simp add: a2b_quad bd ar "1.IH" mod_less[OF unat_byte_less] del: a2b_loop.simps)
next
  case (2 a b)
  note bd = table_bounds[OF unat_byte_less[of a] unat_byte_less[of b] unat_byte_less[of b]]
  note ar = byte_arith[OF unat_byte_less[of a] unat_byte_less[of b] unat_byte_less[of b]]
  show ?case
    by (simp add: a2b_step a2b_pad bd ar mod_less[OF unat_byte_less] del: a2b_loop.simps)
next
  case (3 a)
  note bd = table_bounds[OF unat_byte_less[of a] unat_byte_less[of a] unat_byte_less[of a]]
  note ar = byte_arith[OF unat_byte_less[of a] unat_byte_less[of a] unat_byte_less[of a]]
  show ?case
    by (simp add: a2b_step a2b_pad bd ar table_a2b_base64_def mod_less[OF unat_byte_less] del: a2b_loop.simps)
next
  case 4
  show ?case by simp
qed

lemma b2a_base64_ascii: "c \<in> set (b2a_base64 bs) \<Longrightarrow> \<not> of_char c > (127::nat)"
proof (induction bs rule: b2a_base64.induct)
  case (1 a b c' rest)
  note bd = table_bounds[OF unat_byte_less[of a] unat_byte_less[of b] unat_byte_less[of c']]
  from 1 show ?case using table_plain(1)[OF bd(1)] table_plain(1)[OF bd(2)] table_plain(1)[OF bd(3)] table_plain(1)[OF bd(4)]
    by auto
next
  case (2 a b)
  note bd = table_bounds[OF unat_byte_less[of a] unat_byte_less[of b] unat_byte_less[of b]]
  from 2 show ?case using table_plain(1)[OF bd(1)] table_plain(1)[OF bd(2)] table_plain(1)[OF bd(6)]
    by auto
next
  case (3 a)
  note bd = table_bounds[OF unat_byte_less[of a] unat_byte_less[of a] unat_byte_less[of a]]
  from 3 show ?case using table_plain(1)[OF bd(1)] table_plain(1)[OF bd(5)]
    by auto
next
  case 4 then show ?case by simp
qed

lemma b64decode_b64encode: "b64decode (b64encode bs) = Inr bs"
  using b2a_base64_ascii[of _ bs]
  by (auto simp add: b64decode_def b64encode_def a2b_loop_b2a)










section \<open>Properties of the numpy primitives\<close>

lemma np_dtype_name:
  assumes "d \<in> set all_dtypes"
  shows "np_dtype (dtype_name d) = Some d"
proof (cases d)
  case (Datetime64 u)
  then show ?thesis by (cases u) (simp_all add: np_dtype_def all_dtypes_def all_units_def)
next
  case (Timedelta64 u)
  then show ?thesis by (cases u) (simp_all add: np_dtype_def all_dtypes_def all_units_def)
next
  case Object
  with assms show ?thesis by (auto simp add: all_dtypes_def)
next
  case (Structured fs)
  with assms show ?thesis by (auto simp add: all_dtypes_def)
qed (simp_all add: np_dtype_def all_dtypes_def all_units_def)

lemma find_Some_member: "find P xs = Some x \<Longrightarrow> x \<in> set xs"
  by (induction xs) (auto split: if_splits)

lemma np_dtype_Some: "np_dtype name = Some d \<Longrightarrow> d \<in> set all_dtypes"
  unfolding np_dtype_def by (rule find_Some_member)


lemma all_dtypes_fixed_size: "d \<in> set all_dtypes \<Longrightarrow> d \<noteq> Object \<and> 0 < itemsize d"
  by (auto simp add: all_dtypes_def all_units_def)

lemma py_ints_map: "py_ints (map (\<lambda>n. PyInt (f n)) ns) = Inr (map f ns)"
  by (induction ns) simp_all


lemma nonzero_product_pos: "1 \<le> nonzero_product dims"
proof (induction dims)
  case Nil
  then show ?case by (simp add: nonzero_product_def)
next
  case (Cons d dims)
  have "1 * 1 \<le> max d 1 * nonzero_product dims"
    using Cons by (intro mult_mono) simp_all
  then show ?case by (simp add: nonzero_product_def)
qed

lemma nonzero_product_Cons: "nonzero_product (d # dims) = max d 1 * nonzero_product dims"
  by (simp add: nonzero_product_def)

lemma known_size_nonneg:
  assumes "\<forall>d \<in> set dims. 0 \<le> d" "0 \<le> s" "max s 1 * nonzero_product dims \<le> max_intp"
  shows "known_size dims s = Some (s * prod_list dims)"
  using assms
proof (induction dims arbitrary: s)
  case Nil
  then show ?case by simp
next
  case (Cons d dims)
  have d: "0 \<le> d" using Cons.prems(1) by simp
  have np: "1 \<le> nonzero_product dims" by (rule nonzero_product_pos)
  have m1: "max (s * d) 1 \<le> max s 1 * max d 1"
  proof (cases "s * d \<le> 1")
    case True
    have "1 * 1 \<le> max s 1 * max d 1" by (intro mult_mono) simp_all
    with True show ?thesis by simp
  next
    case False
    have "s * d \<le> max s 1 * max d 1" using Cons.prems(2) d by (intro mult_mono) simp_all
    with False show ?thesis by simp
  qed
  have bound: "max (s * d) 1 * nonzero_product dims \<le> max_intp"
  proof -
    have "max (s * d) 1 * nonzero_product dims \<le> (max s 1 * max d 1) * nonzero_product dims"
      using m1 np by (intro mult_right_mono) simp_all
    also have "\<dots> = max s 1 * nonzero_product (d # dims)"
      by (simp add: nonzero_product_Cons mult.assoc)
    finally show ?thesis using Cons.prems(3) by simp
  qed
  have fits: "s * d \<le> max_intp"
  proof -
    have "s * d \<le> max (s * d) 1 * 1" by simp
    also have "\<dots> \<le> max (s * d) 1 * nonzero_product dims"
      using np by (intro mult_left_mono) simp_all
    finally show ?thesis using bound by simp
  qed
  have no_overflow: "\<not> (s \<noteq> 0 \<and> max_intp div s < d)"
  proof
    assume a: "s \<noteq> 0 \<and> max_intp div s < d"
    with Cons.prems(2) have s: "0 < s" by simp
    from a have "max_intp div s + 1 \<le> d" by simp
    then have "s * (max_intp div s + 1) \<le> s * d" using s by (intro mult_left_mono) simp_all
    moreover have "max_intp < s * (max_intp div s + 1)"
    proof -
      have e: "s * (max_intp div s) + max_intp mod s = max_intp" by simp
      have m: "max_intp mod s < s" using s by simp
      have "s * (max_intp div s + 1) = s * (max_intp div s) + s" by (simp add: distrib_left)
      with e m show ?thesis by linarith
    qed
    ultimately show False using fits by simp
  qed
  have "known_size dims (s * d) = Some (s * d * prod_list dims)"
    using Cons.prems(1,2) d bound by (intro Cons.IH) simp_all
  then show ?case using d no_overflow by (simp add: mult.assoc)
qed

lemma member_le_nonzero_product:
  assumes "d \<in> set dims"
  shows "d \<le> nonzero_product dims"
  using assms
proof (induction dims)
  case Nil
  then show ?case by simp
next
  case (Cons x dims)
  have np: "1 \<le> nonzero_product dims" by (rule nonzero_product_pos)
  show ?case
  proof (cases "d = x")
    case True
    have "max x 1 * 1 \<le> max x 1 * nonzero_product dims"
      using np by (intro mult_left_mono) simp_all
    with True show ?thesis by (simp add: nonzero_product_Cons)
  next
    case False
    with Cons have "d \<le> nonzero_product dims" by simp
    also have "\<dots> = 1 * nonzero_product dims" by simp
    also have "\<dots> \<le> max x 1 * nonzero_product dims"
      using np by (intro mult_right_mono) simp_all
    finally show ?thesis by (simp add: nonzero_product_Cons)
  qed
qed

lemma fix_unknown_dimension_nonneg:
  assumes "\<forall>d \<in> set dims. 0 \<le> d" "nonzero_product dims \<le> max_intp"
  shows "fix_unknown_dimension dims n =
           (if int n \<noteq> prod_list dims then Inl ValueError else Inr (map nat dims))"
proof -
  have "filter (\<lambda>d. d < 0) dims = []" using assms(1) by (auto simp add: filter_empty_conv)
  moreover have "known_size dims 1 = Some (prod_list dims)"
    using known_size_nonneg[OF assms(1), of 1] assms(2) by simp
  ultimately show ?thesis by (simp add: fix_unknown_dimension_def)
qed

lemma nonzero_product_nat:
  assumes "\<forall>d \<in> set dims. 0 \<le> d"
  shows "nonzero_product (map int (map nat dims)) = nonzero_product dims"
proof -
  have "map int (map nat dims) = dims" using assms by (simp add: map_idI)
  then show ?thesis by simp
qed

lemma nonzero_product_le_bytes:
  assumes "0 < k" "int k * nonzero_product dims \<le> max_intp"
  shows "nonzero_product dims \<le> max_intp"
proof -
  have "1 * nonzero_product dims \<le> int k * nonzero_product dims"
    using assms(1) nonzero_product_pos[of dims] by (intro mult_right_mono) simp_all
  with assms(2) show ?thesis by simp
qed

lemma np_reshape_nonneg:
  assumes "\<forall>d \<in> set dims. 0 \<le> d" "0 < itemsize (dtype a)"
    "int (itemsize (dtype a)) * nonzero_product dims \<le> max_intp"
  shows "np_reshape a dims =
           (if 32 < length dims \<or> prod_list dims \<noteq> int (np_size a) then Inl ValueError
            else Inr (a\<lparr>shape := map nat dims\<rparr>))"
proof -
  have fitting: "nonzero_product dims \<le> max_intp"
    using assms(2,3) by (rule nonzero_product_le_bytes)
  have "\<not> (\<exists>d \<in> set dims. d < - max_intp - 1 \<or> max_intp < d)"
  proof
    assume "\<exists>d \<in> set dims. d < - max_intp - 1 \<or> max_intp < d"
    then obtain d where d: "d \<in> set dims" "d < - max_intp - 1 \<or> max_intp < d" by blast
    from member_le_nonzero_product[OF d(1)] fitting have "d \<le> max_intp" by simp
    moreover from assms(1) d(1) have "0 \<le> d" by simp
    ultimately show False using d(2) by (simp add: max_intp_def)
  qed
  then have range: "(\<exists>d \<in> set dims. d < - max_intp - 1 \<or> max_intp < d) = False" by simp
  have bytes: "(max_intp < int (itemsize (dtype a)) * nonzero_product (map int (map nat dims))) = False"
    using assms(3) by (simp only: nonzero_product_nat[OF assms(1)]) simp
  show ?thesis
    unfolding np_reshape_def range fix_unknown_dimension_nonneg[OF assms(1) fitting]
    by (simp add: bytes del: map_map)
qed








lemma filled_nan_same: "filled_nan a0 m = Inr a \<Longrightarrow> dtype a = dtype a0 \<and> shape a = shape a0"
  by (auto simp add: filled_nan_def split: option.splits if_splits)


lemma nest_is_list: "shp \<noteq> [] \<Longrightarrow> \<exists>ys. nest shp xs = PyList ys"
  by (cases shp) simp_all

lemma transform_array_to_list_is_list:
  assumes "shape a \<noteq> []"
  shows "\<exists>ys. transform_array_to_list a = PyList ys"
  unfolding transform_array_to_list_def tolist_def Let_def
  using nest_is_list[OF assms] by (simp del: nest.simps)

lemma encode_base64_dict_is_envelope: "is_envelope (encode_base64_dict a)"
  by (simp add: encode_base64_dict_def)


lemma serialize_array_plain:
  "serialize_array settings (NDArray a) force_list =
     Inr (if encoding_disabled settings a \<or> force_list then transform_array_to_list a
          else encode_base64_dict (if \<not> c_contiguous a then np_ascontiguousarray a else a))"
  by (simp add: serialize_array_def)

lemma serialize_array_masked:
  "serialize_array settings (MaskedArray a0 m) force_list =
     (case filled_nan a0 m of
        Inl e \<Rightarrow> Inl e
      | Inr a \<Rightarrow> serialize_array settings (NDArray a) force_list)"
  by (simp add: serialize_array_def split: sum.splits)

lemma encode_contiguous:
  "encode_base64_dict (if \<not> c_contiguous a then np_ascontiguousarray a else a) = encode_base64_dict a"
  by (simp add: encode_base64_dict_def np_ascontiguousarray_def)


lemma list_path_plain:
  "list_path settings (NDArray a) force_list \<longleftrightarrow> encoding_disabled settings a \<or> force_list"
  by (auto simp add: list_path_def encoding_disabled_def)

text \<open>
  The routing of \<open>serialize_array\<close> for an array with at least one dimension: whenever it
  returns, the result is a list when one of the four conditions of \<open>list_path\<close> holds,
  and a Binary Envelope otherwise.
\<close>

lemma serialize_array_routing:
  assumes "serialize_array settings arr force_list = Inr r" "np_shape_of arr \<noteq> []"
  shows "(is_list r \<longleftrightarrow> list_path settings arr force_list) \<and>
         (is_envelope r \<longleftrightarrow> \<not> list_path settings arr force_list)"
proof -
  have plain: "(is_list r \<longleftrightarrow> list_path settings (NDArray a) force_list) \<and>
               (is_envelope r \<longleftrightarrow> \<not> list_path settings (NDArray a) force_list)"
    if ser: "serialize_array settings (NDArray a) force_list = Inr r" and shp: "shape a \<noteq> []"
    for a
  proof (cases "encoding_disabled settings a \<or> force_list")
    case True
    with ser have "r = transform_array_to_list a" by (simp add: serialize_array_plain)
    with transform_array_to_list_is_list[OF shp] obtain ys where "r = PyList ys" by auto
    with True show ?thesis by (simp add: list_path_plain)
  next
    case False
    with ser have "r = encode_base64_dict a"
      by (simp add: serialize_array_plain encode_contiguous)
    with False show ?thesis by (simp add: list_path_plain encode_base64_dict_def)
  qed
  show ?thesis
  proof (cases arr)
    case (NDArray a)
    with assms plain[of a] show ?thesis by simp
  next
    case (MaskedArray a0 m)
    with assms(1) obtain a where f: "filled_nan a0 m = Inr a"
      and ser: "serialize_array settings (NDArray a) force_list = Inr r"
      by (auto simp add: serialize_array_masked split: sum.splits)
    from filled_nan_same[OF f] have same: "dtype a = dtype a0" "shape a = shape a0" by simp_all
    then have "list_path settings (NDArray a) force_list = list_path settings arr force_list"
      using MaskedArray by (simp add: list_path_def)
    with plain[OF ser] assms(2) MaskedArray same show ?thesis by simp
  qed
qed

section \<open>Evaluated examples\<close>

lemma b64encode_one: "b64encode [0, 0, 0, 0, 0, 0, 0xF0, 0x3F] = ''AAAAAAAA8D8=''"
  by (simp add: b64encode_def table_b2a_base64_def b64_alphabet_def)

lemma b64decode_one: "b64decode ''AAAAAAAA8D8='' = Inr [0, 0, 0, 0, 0, 0, 0xF0, 0x3F]"
  using b64decode_b64encode[of "[0, 0, 0, 0, 0, 0, 0xF0, 0x3F]"] by (simp only: b64encode_one)

lemma np_dtype_float64: "np_dtype ''float64'' = Some Float64"
  using np_dtype_name[of Float64] by (simp add: all_dtypes_def)



lemma b64encode_123: "b64encode [1, 2, 3] = ''AQID''"
  by (simp add: b64encode_def table_b2a_base64_def b64_alphabet_def)

lemma b64decode_123: "b64decode ''AQID'' = Inr [1, 2, 3]"
  using b64decode_b64encode[of "[1, 2, 3]"] by (simp only: b64encode_123)

lemma np_dtype_uint8: "np_dtype ''uint8'' = Some UInt8"
  using np_dtype_name[of UInt8] by (simp add: all_dtypes_def)

lemma upt_0_4: "[0..<4::nat] = [0, 1, 2, 3]"
  by (simp add: upt_rec)

lemma elements_example:
  "elements \<lparr>dtype = Float64, shape = [4],
           buffer = [0, 0, 0, 0, 0, 0, 0xF0, 0x3F,  0, 0, 0, 0, 0, 0, 0xF8, 0x7F,
                     0, 0, 0, 0, 0, 0, 0xF0, 0x7F,  0, 0, 0, 0, 0, 0, 0xF0, 0xFF],
           objects = [], c_contiguous = True\<rparr> =
   [[0, 0, 0, 0, 0, 0, 0xF0, 0x3F], [0, 0, 0, 0, 0, 0, 0xF8, 0x7F],
    [0, 0, 0, 0, 0, 0, 0xF0, 0x7F], [0, 0, 0, 0, 0, 0, 0xF0, 0xFF]]"
  by (simp add: elements_def upt_rec)

lemma float_examples:
  "float_of_bytes Float64 [0, 0, 0, 0, 0, 0, 0xF0, 0x3F] = Fin 1"
  "float_of_bytes Float64 [0, 0, 0, 0, 0, 0, 0xF8, 0x7F] = NaN"
  "float_of_bytes Float64 [0, 0, 0, 0, 0, 0, 0xF0, 0x7F] = PosInf"
  "float_of_bytes Float64 [0, 0, 0, 0, 0, 0, 0xF0, 0xFF] = NegInf"
  by (simp_all add: ieee_decode_def pow2_def Let_def)

lemma nest_example: "nest [4] [a, b, c, d] = PyList [a, b, c, d]"
  by (simp add: upt_rec)

lemma elements_finite_example:
  "elements \<lparr>dtype = Float64, shape = [2],
           buffer = [0, 0, 0, 0, 0, 0, 0xF0, 0x3F,  0, 0, 0, 0, 0, 0, 0xF0, 0x3F], objects = [], c_contiguous = True\<rparr> =
   [[0, 0, 0, 0, 0, 0, 0xF0, 0x3F], [0, 0, 0, 0, 0, 0, 0xF0, 0x3F]]"
  by (simp add: elements_def upt_rec)

lemma elements_123:
  "elements \<lparr>dtype = UInt8, shape = [3], buffer = [1, 2, 3], objects = [], c_contiguous = True\<rparr> = [[1], [2], [3]]"
  by (simp add: elements_def upt_rec)

lemma nest_3: "nest [3] [a, b, c] = PyList [a, b, c]"
  by (simp add: upt_rec)

lemma transform_array_123_list:
  "transform_array \<lparr>use_binary_arrays = True, binary_array_cutoff = 5\<rparr>
     (NDArray \<lparr>dtype = UInt8, shape = [3], buffer = [1, 2, 3], objects = [], c_contiguous = True\<rparr>) False =
   Inr (PyList [PyInt 1, PyInt 2, PyInt 3])"
  by (simp add: transform_array_def serialize_array_def encoding_disabled_def array_types_def
      transform_array_to_list_def np_isfinite_def tolist_def astype_object_def elements_123 nest_3
      scalar_item_def del: nest.simps)

lemma transform_array_123_binary:
  "transform_array \<lparr>use_binary_arrays = True, binary_array_cutoff = 2\<rparr>
     (NDArray \<lparr>dtype = UInt8, shape = [3], buffer = [1, 2, 3], objects = [], c_contiguous = True\<rparr>) False =
   Inr (PyDict [(''__ndarray__'', PyStr ''AQID''), (''shape'', PyTuple [PyInt 3]), (''dtype'', PyStr ''uint8'')])"
  by (simp add: transform_array_def serialize_array_def encoding_disabled_def array_types_def
      encode_base64_dict_def b64encode_123)

lemma decode_envelope_123:
  "decode_base64_dict [(''__ndarray__'', PyStr ''AQID''), (''shape'', PyList [PyInt 3]), (''dtype'', PyStr ''uint8'')] =
   Inr \<lparr>dtype = UInt8, shape = [3], buffer = [1, 2, 3], objects = [], c_contiguous = True\<rparr>"
  by (simp add: decode_base64_dict_def b64decode_123 np_dtype_uint8 np_fromstring_def)

lemma traverse_tuple_example:
  "traverse_data settings True False [PyTuple [PyInt 1, PyFloat NaN]] =
   Inr (PyList [PyList [PyInt 1, PyStr ''NaN'']])"
  by simp

text \<open>
  A structured array on the list path: \<open>tolist()\<close> gives one tuple for each element, so
  the result of \<open>transform_array\<close>, and with it the output of \<open>traverse_data\<close> on its
  fast path, can hold tuples.
\<close>

lemma elements_structured:
  "elements \<lparr>dtype = Structured [UInt8, UInt8], shape = [2], buffer = [1, 2, 3, 4],
              objects = [], c_contiguous = True\<rparr> = [[1, 2], [3, 4]]"
proof -
  have k: "itemsize (Structured [UInt8, UInt8]) = 2" by simp
  show ?thesis
    unfolding elements_def by (simp add: k upt_rec del: itemsize.simps)
qed

lemma nest_2: "nest [2] [a, b] = PyList [a, b]"
  by (simp add: upt_rec)

lemma transform_array_structured:
  "transform_array settings
     (NDArray \<lparr>dtype = Structured [UInt8, UInt8], shape = [2], buffer = [1, 2, 3, 4],
                objects = [], c_contiguous = True\<rparr>) False =
   Inr (PyList [PyTuple [PyInt 1, PyInt 2], PyTuple [PyInt 3, PyInt 4]])"
  by (simp add: transform_array_def serialize_array_def encoding_disabled_def array_types_def
      transform_array_to_list_def tolist_def astype_object_def elements_structured nest_2
      scalar_item_def del: nest.simps)

lemma traverse_data_structured:
  "traverse_data settings True True
     [PyArray (NDArray \<lparr>dtype = Structured [UInt8, UInt8], shape = [2], buffer = [1, 2, 3, 4],
                         objects = [], c_contiguous = True\<rparr>)] =
   Inr (PyList [PyList [PyTuple [PyInt 1, PyInt 2], PyTuple [PyInt 3, PyInt 4]]])"
  by (simp add: transform_array_structured)

section \<open>Properties of decoding\<close>

lemma py_len_shape:
  "py_len (PyList (map PyInt dims)) = Inr (length dims)"
  "py_len (PyTuple (map PyInt dims)) = Inr (length dims)"
  by simp_all

lemma shape_arg_ints:
  "shape_arg (PyList (map PyInt dims)) = Inr dims"
  "shape_arg (PyTuple (map PyInt dims)) = Inr dims"
  using py_ints_map[of "\<lambda>n. n" dims] by simp_all

lemma decode_base64_dict_fields:
  assumes "map_of data ''__ndarray__'' = Some (PyStr s)"
    and "b64decode s = Inr b64"
    and "map_of data ''dtype'' = Some (PyStr name)"
    and "np_dtype name = Some d"
    and "map_of data ''shape'' = Some shp"
    and "shp = PyList (map PyInt dims) \<or> shp = PyTuple (map PyInt dims)"
  shows "decode_base64_dict data =
           (if length b64 mod itemsize d \<noteq> 0 then Inl ValueError
            else if length dims > 1
            then np_reshape \<lparr>dtype = d, shape = [length b64 div itemsize d], buffer = b64,
                              objects = [], c_contiguous = True\<rparr> dims
            else Inr \<lparr>dtype = d, shape = [length b64 div itemsize d], buffer = b64,
                       objects = [], c_contiguous = True\<rparr>)"
proof -
  have len: "py_len shp = Inr (length dims)" and arg: "shape_arg shp = Inr dims"
    using assms(6) py_len_shape[of dims] shape_arg_ints[of dims] by auto
  note fixed = all_dtypes_fixed_size[OF np_dtype_Some[OF assms(4)]]
  show ?thesis
    using assms(1-5) len arg fixed
    by (simp add: decode_base64_dict_def np_fromstring_def del: py_len.simps shape_arg.simps)
qed

lemma prod_list_nonneg: "\<forall>d \<in> set dims. (0::int) \<le> d \<Longrightarrow> 0 \<le> prod_list dims"
  by (induction dims) simp_all

lemma known_size_nonneg_cases:
  assumes "\<forall>d \<in> set dims. 0 \<le> d"
  shows "known_size dims s = None \<or> known_size dims s = Some (s * prod_list dims)"
  using assms
proof (induction dims arbitrary: s)
  case Nil
  then show ?case by simp
next
  case (Cons d dims)
  then have d: "\<not> d < 0" and rest: "\<forall>d \<in> set dims. 0 \<le> d" by simp_all
  from Cons.IH[OF rest, of "s * d"] d show ?case by (auto simp add: mult.assoc)
qed

lemma np_reshape_mismatch:
  assumes "\<forall>d \<in> set dims. 0 \<le> d" "32 < length dims \<or> prod_list dims \<noteq> int (np_size a)"
  shows "np_reshape a dims = Inl ValueError"
proof (cases "32 < length dims")
  case True
  then show ?thesis by (simp add: np_reshape_def)
next
  case False
  with assms(2) have ne: "int (np_size a) \<noteq> prod_list dims" by auto
  have none: "filter (\<lambda>d. d < 0) dims = []" using assms(1) by (auto simp add: filter_empty_conv)
  have "fix_unknown_dimension dims (np_size a) = Inl ValueError"
    using known_size_nonneg_cases[OF assms(1), of 1] ne none
    by (auto simp add: fix_unknown_dimension_def)
  then show ?thesis by (simp add: np_reshape_def)
qed

section \<open>Properties of the list path\<close>

lemma setitem_mask_map:
  "setitem_mask (map f xs) (map p xs) v = map (\<lambda>x. if p x then v else f x) xs"
  by (induction xs) (simp_all add: setitem_mask_def)

lemma item_float: "kind d = CHR ''f'' \<Longrightarrow> item d bs = PyFloat (float_of_bytes d bs)"
  by (cases d) (simp_all add: scalar_item_def)

lemma sentinel_finite: "is_finite x \<Longrightarrow> sentinel x = PyFloat x"
  by (cases x) (simp_all add: sentinel_def is_finite_def)

lemma sanitized_items:
  assumes "kind (dtype a) = CHR ''f''"
  shows "setitem_mask (setitem_mask (setitem_mask (astype_object a) (np_isnan a) (PyStr ''NaN''))
           (np_isposinf a) (PyStr ''Infinity'')) (np_isneginf a) (PyStr ''-Infinity'') =
         map (\<lambda>bs. sentinel (float_of_bytes (dtype a) bs)) (elements a)"
  using assms
  by (auto simp add: astype_object_def np_isnan_def np_isposinf_def np_isneginf_def setitem_mask_map
      item_float sentinel_def split: pyfloat.splits)

section \<open>Properties of nested traversal\<close>

lemma sentinel_ifs:
  "(if x = NaN then PyStr ''NaN''
    else if x = PosInf then PyStr ''Infinity''
    else if x = NegInf then PyStr ''-Infinity''
    else PyFloat x) = sentinel x"
  by (cases x) (simp_all add: sentinel_def)

lemma traverse_both:
  "((datum = [] \<or> \<not> list_all is_ndarray datum) \<and> (\<forall>x \<in> set datum. not_uniform_arrays x) \<longrightarrow>
      traverse_data settings is_numpy use_numpy datum = Inr (PyList (map traverse_spec datum)))"
  "((\<forall>x \<in> set items. not_uniform_arrays x) \<longrightarrow>
      traverse_items settings items = Inr (map traverse_spec items))"
proof (induction settings is_numpy use_numpy datum and settings items
    rule: traverse_data_traverse_items.induct)
  case (1 settings is_numpy use_numpy datum)
  show ?case
  proof (intro impI)
    assume a: "(datum = [] \<or> \<not> list_all is_ndarray datum) \<and> (\<forall>x \<in> set datum. not_uniform_arrays x)"
    show "traverse_data settings is_numpy use_numpy datum = Inr (PyList (map traverse_spec datum))"
    proof (cases "(is_numpy \<and> use_numpy) \<and> list_all is_ndarray datum")
      case True
      with a have "datum = []" by blast
      with True show ?thesis by simp
    next
      case False
      with 1 a have "traverse_items settings datum = Inr (map traverse_spec datum)" by blast
      with False show ?thesis by auto
    qed
  qed
qed (simp_all add: sentinel_ifs)

lemma sequence_list_map_Inr: "sequence_list (map Inr vs) = Inr vs"
  by (induction vs) simp_all

lemma sequence_list_Inr_D: "sequence_list rs = Inr vs \<Longrightarrow> rs = map Inr vs"
proof (induction rs arbitrary: vs)
  case Nil
  then show ?case by simp
next
  case (Cons r rs)
  show ?case
  proof (cases r)
    case (Inl e)
    with Cons.prems show ?thesis by simp
  next
    case (Inr v)
    with Cons.prems obtain vs' where "sequence_list rs = Inr vs'" "vs = v # vs'"
      by (auto split: sum.splits)
    with Cons.IH[of vs'] Inr show ?thesis by simp
  qed
qed

lemma sequence_list_Inr: "sequence_list rs = Inr vs \<longleftrightarrow> rs = map Inr vs"
  using sequence_list_Inr_D sequence_list_map_Inr by blast

lemma sequence_list_length: "sequence_list rs = Inr vs \<Longrightarrow> length vs = length rs"
  using sequence_list_Inr_D[of rs vs] by auto

lemma rebuilt_array: "is_ndarray x \<Longrightarrow> rebuilt x r"
  by (cases x) simp_all

lemma rebuilt_arrays:
  assumes "list_all is_ndarray xs" "length rs = length xs"
  shows "list_all2 rebuilt xs rs"
  using assms by (simp add: list_all2_conv_all_nth list_all_length rebuilt_array)

lemma rebuilt_tuple: "rebuilt (PyTuple xs) r = rebuilt (PyList xs) r"
  by simp

lemma traverse_rebuilt:
  "(\<forall>r. traverse_data settings is_numpy use_numpy datum = Inr r \<longrightarrow> rebuilt (PyList datum) r)"
  "(\<forall>rs. traverse_items settings items = Inr rs \<longrightarrow> list_all2 rebuilt items rs)"
proof (induction settings is_numpy use_numpy datum and settings items
    rule: traverse_data_traverse_items.induct)
  case (1 settings is_numpy use_numpy datum)
  show ?case
  proof (cases "(is_numpy \<and> use_numpy) \<and> list_all is_ndarray datum")
    case True
    show ?thesis
    proof (intro allI impI)
      fix r assume "traverse_data settings is_numpy use_numpy datum = Inr r"
      with True obtain results where res: "r = PyList results"
        "sequence_list (map (transform_element settings) datum) = Inr results"
        by (auto split: sum.splits)
      from sequence_list_length[OF res(2)] have "length results = length datum" by simp
      with True have "list_all2 rebuilt datum results" by (intro rebuilt_arrays) simp_all
      with res(1) show "rebuilt (PyList datum) r" by simp
    qed
  next
    case False
    with 1 show ?thesis by (auto split: sum.splits)
  qed
next
  case (3 settings xs rest)
  then show ?case by (auto split: sum.splits)
next
  case (4 settings xs rest)
  then show ?case by (auto split: sum.splits)
qed (auto split: sum.splits)

lemma traverse_items_arrays: "traverse_items settings (map PyArray arrs) = Inr (map PyArray arrs)"
  by (induction arrs) simp_all

lemma list_all_is_ndarray_map: "list_all is_ndarray (map PyArray arrs)"
  by (induction arrs) simp_all

lemma traverse_data_arrays:
  "traverse_data settings True True (map PyArray arrs) = Inr r \<longleftrightarrow>
     (\<exists>rs. r = PyList rs \<and> length rs = length arrs \<and>
           (\<forall>k < length arrs. transform_array settings (arrs ! k) False = Inr (rs ! k)))"
proof -
  have m: "map (transform_element settings) (map PyArray arrs) =
           map (\<lambda>a. transform_array settings a False) arrs"
    by simp
  have "traverse_data settings True True (map PyArray arrs) = Inr r \<longleftrightarrow>
        (\<exists>rs. r = PyList rs \<and> sequence_list (map (\<lambda>a. transform_array settings a False) arrs) = Inr rs)"
    unfolding traverse_data.simps m[symmetric]
    by (auto simp add: list_all_is_ndarray_map split: sum.splits)
  also have "\<dots> \<longleftrightarrow> (\<exists>rs. r = PyList rs \<and> length rs = length arrs \<and>
           (\<forall>k < length arrs. transform_array settings (arrs ! k) False = Inr (rs ! k)))"
    by (auto simp add: sequence_list_Inr list_eq_iff_nth_eq)
  finally show ?thesis .
qed

lemma traverse_data_without_numpy:
  assumes "\<not> (is_numpy \<and> use_numpy)"
  shows "traverse_data settings is_numpy use_numpy (map PyArray arrs) = Inr (PyList (map PyArray arrs))"
proof -
  from assms
  have off: "((is_numpy \<and> use_numpy) \<and> list_all is_ndarray (map PyArray arrs)) = False" by blast
  show ?thesis
    unfolding traverse_data.simps off by (simp add: traverse_items_arrays)
qed

section \<open>Properties of the column functions\<close>

lemma decode_element_iff: "decode_element el = Inr el' \<longleftrightarrow> element_decoded el el'"
  by (cases el) (auto split: sum.splits)

lemma decode_elements_iff:
  "sequence_list (map decode_element els) = Inr els' \<longleftrightarrow> list_all2 element_decoded els els'"
proof -
  have "sequence_list (map decode_element els) = Inr els' \<longleftrightarrow> map decode_element els = map Inr els'"
    by (rule sequence_list_Inr)
  also have "\<dots> \<longleftrightarrow> list_all2 element_decoded els els'"
    by (auto simp add: list_eq_iff_nth_eq list_all2_conv_all_nth decode_element_iff)
  finally show ?thesis .
qed

lemma decode_column_iff: "decode_column v = Inr v' \<longleftrightarrow> column_decoded v v'"
proof (cases v)
  case (PyList els)
  have spec: "column_decoded v v' \<longleftrightarrow>
      (\<exists>els'. v' = PyList els' \<and> sequence_list (map decode_element els) = Inr els')"
    using PyList by (cases v') (simp_all add: decode_elements_iff)
  show ?thesis
  proof (cases "sequence_list (map decode_element els)")
    case (Inl e)
    with PyList spec show ?thesis by simp
  next
    case (Inr new_list)
    with PyList spec show ?thesis by auto
  qed
qed (auto split: sum.splits)

section \<open>Properties of the temporal conversion\<close>













lemma temporal_itemsize:
  "kind d = CHR ''M'' \<or> kind d = CHR ''m'' \<Longrightarrow> itemsize d = 8"
  by (cases d) simp_all
















section \<open>C1: binary round trip\<close>




section \<open>C2: list path or Binary Envelope\<close>

text \<open>
  C2. The claim is that \<open>serialize_array\<close> returns an ordered sequence exactly when one
  of the four conditions of \<open>list_path\<close> holds (binary arrays switched off,
  \<open>force_list\<close>, dtype outside \<open>array_types\<close>, fewer elements than the cutoff), and a
  Binary Envelope otherwise; the docstring of \<open>serialize_array\<close> promises the same two
  formats, "either a list or a dictionary". The code does not keep it for a
  zero-dimensional array: whatever the settings, \<open>serialize_array(np.array(1.0),
  force_list=True)\<close> is on the list path and returns \<open>array.tolist()\<close>, which for a
  zero-dimensional array is the bare scalar \<open>1.0\<close>, neither a list nor an envelope. For
  arrays with at least one dimension the routing is as claimed
  (\<open>serialize_array_routing\<close>).
\<close>

theorem serialize_array_zero_dim:
  "wf_array (NDArray \<lparr>dtype = Float64, shape = [], buffer = [0, 0, 0, 0, 0, 0, 0xF0, 0x3F],
                       objects = [], c_contiguous = True\<rparr>)
   \<and> list_path settings
        (NDArray \<lparr>dtype = Float64, shape = [], buffer = [0, 0, 0, 0, 0, 0, 0xF0, 0x3F],
                   objects = [], c_contiguous = True\<rparr>) True
   \<and> serialize_array settings
        (NDArray \<lparr>dtype = Float64, shape = [], buffer = [0, 0, 0, 0, 0, 0, 0xF0, 0x3F],
                   objects = [], c_contiguous = True\<rparr>) True = Inr (PyFloat (Fin 1))
   \<and> \<not> is_list (PyFloat (Fin 1))
   \<and> \<not> is_envelope (PyFloat (Fin 1))"
  by (simp add: wf_ndarray_def np_size_def nonzero_product_def max_intp_def list_path_def
      serialize_array_def transform_array_to_list_def np_isfinite_def elements_def tolist_def
      astype_object_def scalar_item_def ieee_decode_def pow2_def Let_def)

text \<open>
  The theorem with binary arrays switched on and cutoff 1.
\<close>

theorem serialize_array_zero_dim_witness:
  "list_path \<lparr>use_binary_arrays = True, binary_array_cutoff = 1\<rparr>
     (NDArray \<lparr>dtype = Float64, shape = [], buffer = [0, 0, 0, 0, 0, 0, 0xF0, 0x3F],
                objects = [], c_contiguous = True\<rparr>) True
   \<and> serialize_array \<lparr>use_binary_arrays = True, binary_array_cutoff = 1\<rparr>
        (NDArray \<lparr>dtype = Float64, shape = [], buffer = [0, 0, 0, 0, 0, 0, 0xF0, 0x3F],
                   objects = [], c_contiguous = True\<rparr>) True = Inr (PyFloat (Fin 1))
   \<and> \<not> is_list (PyFloat (Fin 1))"
  using serialize_array_zero_dim[of "\<lparr>use_binary_arrays = True, binary_array_cutoff = 1\<rparr>"]
  by simp

section \<open>C3: sentinels on the list path\<close>

text \<open>
  C3. For every floating-point array, the list path (\<open>transform_array_to_list\<close>) returns
  the nested list of its elements in which each NaN is the string \<open>"NaN"\<close>, each
  \<open>+Inf\<close> the string \<open>"Infinity"\<close>, each \<open>-Inf\<close> the string \<open>"-Infinity"\<close>, and each
  finite element the Python float of the same value; an array without non-finite elements
  is exported unchanged, as \<open>tolist\<close> gives it.
\<close>

theorem list_path_sentinels:
  assumes "kind (dtype a) = CHR ''f''"
  shows "transform_array_to_list a =
           nest (shape a) (map (\<lambda>bs. sentinel (float_of_bytes (dtype a) bs)) (elements a)) \<and>
         ((\<forall>bs \<in> set (elements a). is_finite (float_of_bytes (dtype a) bs)) \<longrightarrow>
           transform_array_to_list a = tolist a)"
proof (rule conjI)
  have fin: "\<not> (\<exists>b \<in> set (map Not (np_isfinite a)). b) \<longleftrightarrow>
               (\<forall>bs \<in> set (elements a). is_finite (float_of_bytes (dtype a) bs))"
    using assms by (auto simp add: np_isfinite_def is_finite_def)
  have plain: "(\<forall>bs \<in> set (elements a). is_finite (float_of_bytes (dtype a) bs)) \<Longrightarrow>
      map (\<lambda>bs. sentinel (float_of_bytes (dtype a) bs)) (elements a) = astype_object a"
  proof -
    assume finite: "\<forall>bs \<in> set (elements a). is_finite (float_of_bytes (dtype a) bs)"
    from assms have "dtype a \<noteq> Object" by auto
    then show ?thesis
      using assms finite by (simp add: astype_object_def item_float sentinel_finite)
  qed
  show "transform_array_to_list a =
           nest (shape a) (map (\<lambda>bs. sentinel (float_of_bytes (dtype a) bs)) (elements a))"
  proof (cases "\<exists>b \<in> set (map Not (np_isfinite a)). b")
    case True
    then have cond: "(kind (dtype a) \<in> {CHR ''u'', CHR ''i'', CHR ''f''} \<and>
        (\<exists>b \<in> set (map Not (np_isfinite a)). b)) = True"
      using assms by simp
    show ?thesis
      unfolding transform_array_to_list_def cond Let_def
      by (simp only: if_True sanitized_items[OF assms])
  next
    case False
    then have cond: "(kind (dtype a) \<in> {CHR ''u'', CHR ''i'', CHR ''f''} \<and>
        (\<exists>b \<in> set (map Not (np_isfinite a)). b)) = False"
      by blast
    from False fin have "\<forall>bs \<in> set (elements a). is_finite (float_of_bytes (dtype a) bs)" by simp
    from plain[OF this] show ?thesis
      unfolding transform_array_to_list_def cond tolist_def
      by (simp only: if_False)
  qed
  show "(\<forall>bs \<in> set (elements a). is_finite (float_of_bytes (dtype a) bs)) \<longrightarrow>
           transform_array_to_list a = tolist a"
  proof
    assume "\<forall>bs \<in> set (elements a). is_finite (float_of_bytes (dtype a) bs)"
    with fin have "\<not> (\<exists>b \<in> set (map Not (np_isfinite a)). b)" by simp
    then have cond: "(kind (dtype a) \<in> {CHR ''u'', CHR ''i'', CHR ''f''} \<and>
        (\<exists>b \<in> set (map Not (np_isfinite a)). b)) = False"
      by blast
    show "transform_array_to_list a = tolist a"
      unfolding transform_array_to_list_def cond by (simp only: if_False)
  qed
qed

text \<open>
  The theorem at \<open>np.array([1.0, nan, inf, -inf])\<close> and at the finite array
  \<open>np.array([1.0, 1.0])\<close>.
\<close>

theorem list_path_sentinels_witness:
  "kind Float64 = CHR ''f''
   \<and> transform_array_to_list
        \<lparr>dtype = Float64, shape = [4],
           buffer = [0, 0, 0, 0, 0, 0, 0xF0, 0x3F,  0, 0, 0, 0, 0, 0, 0xF8, 0x7F,
                     0, 0, 0, 0, 0, 0, 0xF0, 0x7F,  0, 0, 0, 0, 0, 0, 0xF0, 0xFF],
           objects = [], c_contiguous = True\<rparr> =
      PyList [PyFloat (Fin 1), PyStr ''NaN'', PyStr ''Infinity'', PyStr ''-Infinity'']
   \<and> is_finite (float_of_bytes Float64 [0, 0, 0, 0, 0, 0, 0xF0, 0x3F])
   \<and> transform_array_to_list
        \<lparr>dtype = Float64, shape = [2],
           buffer = [0, 0, 0, 0, 0, 0, 0xF0, 0x3F,  0, 0, 0, 0, 0, 0, 0xF0, 0x3F], objects = [], c_contiguous = True\<rparr> =
      tolist \<lparr>dtype = Float64, shape = [2],
           buffer = [0, 0, 0, 0, 0, 0, 0xF0, 0x3F,  0, 0, 0, 0, 0, 0, 0xF0, 0x3F], objects = [], c_contiguous = True\<rparr>"
proof -
  let ?a = "\<lparr>dtype = Float64, shape = [4],
         buffer = [0, 0, 0, 0, 0, 0, 0xF0, 0x3F,  0, 0, 0, 0, 0, 0, 0xF8, 0x7F,
                   0, 0, 0, 0, 0, 0, 0xF0, 0x7F,  0, 0, 0, 0, 0, 0, 0xF0, 0xFF],
         objects = [], c_contiguous = True\<rparr>"
  let ?b = "\<lparr>dtype = Float64, shape = [2],
           buffer = [0, 0, 0, 0, 0, 0, 0xF0, 0x3F,  0, 0, 0, 0, 0, 0, 0xF0, 0x3F], objects = [], c_contiguous = True\<rparr>"
  have k: "kind (dtype ?a) = CHR ''f''" "kind (dtype ?b) = CHR ''f''" by simp_all
  from list_path_sentinels[OF k(1)]
  have 1: "transform_array_to_list ?a =
      PyList [PyFloat (Fin 1), PyStr ''NaN'', PyStr ''Infinity'', PyStr ''-Infinity'']"
    by (simp add: elements_example float_examples sentinel_def nest_example
        del: nest.simps float_of_bytes.simps)
  have fin: "\<forall>bs \<in> set (elements ?b). is_finite (float_of_bytes (dtype ?b) bs)"
    by (simp add: elements_finite_example float_examples is_finite_def del: float_of_bytes.simps)
  from list_path_sentinels[OF k(2)] fin have 2: "transform_array_to_list ?b = tolist ?b"
    by blast
  show ?thesis
    using 1 2 by (simp add: float_examples is_finite_def del: float_of_bytes.simps)
qed

section \<open>C4: decode errors\<close>

text \<open>
  C4 (amended). Take an envelope whose payload decodes from base64, whose dtype name is
  known and whose recorded shape is a list or tuple of non-negative integers. If the byte
  length is not a multiple of the dtype's element size, or the shape has more than one
  dimension and the product of its dimensions differs from the element count (or it has
  more than 32 dimensions), \<open>decode_base64_dict\<close> raises \<open>ValueError\<close>. If moreover
  the recorded shape is one numpy can hold (the element size times the product of its
  non-zero dimensions is at most \<open>2^63 - 1\<close>), these are the only failures: in every
  other case, in particular for a shape of one dimension that disagrees with the element
  count, the array is returned.
\<close>

theorem decode_shape_check:
  assumes "map_of data ''__ndarray__'' = Some (PyStr s)"
    and "b64decode s = Inr b64"
    and "map_of data ''dtype'' = Some (PyStr name)"
    and "np_dtype name = Some d"
    and "map_of data ''shape'' = Some shp"
    and "shp = PyList (map PyInt dims) \<or> shp = PyTuple (map PyInt dims)"
    and "\<forall>n \<in> set dims. 0 \<le> n"
  shows "(length b64 mod itemsize d \<noteq> 0 \<or>
            (1 < length dims \<and>
              (32 < length dims \<or> prod_list dims \<noteq> int (length b64 div itemsize d))) \<longrightarrow>
          decode_base64_dict data = Inl ValueError) \<and>
         (int (itemsize d) * nonzero_product dims \<le> max_intp \<longrightarrow>
          decode_base64_dict data =
            (if length b64 mod itemsize d \<noteq> 0 \<or>
                (1 < length dims \<and>
                  (32 < length dims \<or> prod_list dims \<noteq> int (length b64 div itemsize d)))
             then Inl ValueError
             else Inr \<lparr>dtype = d,
                        shape = (if 1 < length dims then map nat dims
                                 else [length b64 div itemsize d]),
                        buffer = b64, objects = [], c_contiguous = True\<rparr>))"
proof (rule conjI)
  let ?n = "length b64 div itemsize d"
  let ?lin = "\<lparr>dtype = d, shape = [?n], buffer = b64, objects = [], c_contiguous = True\<rparr>"
  note fields = decode_base64_dict_fields[OF assms(1-6)]
  have size: "np_size ?lin = ?n" by (simp add: np_size_def)
  show "length b64 mod itemsize d \<noteq> 0 \<or>
          (1 < length dims \<and> (32 < length dims \<or> prod_list dims \<noteq> int ?n)) \<longrightarrow>
        decode_base64_dict data = Inl ValueError"
  proof
    assume bad: "length b64 mod itemsize d \<noteq> 0 \<or>
      (1 < length dims \<and> (32 < length dims \<or> prod_list dims \<noteq> int ?n))"
    show "decode_base64_dict data = Inl ValueError"
    proof (cases "length b64 mod itemsize d \<noteq> 0")
      case True
      then show ?thesis unfolding fields by simp
    next
      case False
      with bad have more: "1 < length dims"
        and mismatch: "32 < length dims \<or> prod_list dims \<noteq> int (np_size ?lin)"
        unfolding size by blast+
      from np_reshape_mismatch[OF assms(7) mismatch] False more
      show ?thesis unfolding fields by simp
    qed
  qed
  show "int (itemsize d) * nonzero_product dims \<le> max_intp \<longrightarrow>
        decode_base64_dict data =
          (if length b64 mod itemsize d \<noteq> 0 \<or>
              (1 < length dims \<and> (32 < length dims \<or> prod_list dims \<noteq> int ?n))
           then Inl ValueError
           else Inr \<lparr>dtype = d,
                      shape = (if 1 < length dims then map nat dims else [?n]),
                      buffer = b64, objects = [], c_contiguous = True\<rparr>)"
  proof
    assume bytes: "int (itemsize d) * nonzero_product dims \<le> max_intp"
    have pos: "0 < itemsize d"
      using all_dtypes_fixed_size[OF np_dtype_Some[OF assms(4)]] by simp
    have rs: "np_reshape ?lin dims =
                (if 32 < length dims \<or> prod_list dims \<noteq> int ?n then Inl ValueError
                 else Inr (?lin\<lparr>shape := map nat dims\<rparr>))"
      using np_reshape_nonneg[of dims ?lin] assms(7) pos bytes by (simp add: np_size_def)
    show "decode_base64_dict data =
          (if length b64 mod itemsize d \<noteq> 0 \<or>
              (1 < length dims \<and> (32 < length dims \<or> prod_list dims \<noteq> int ?n))
           then Inl ValueError
           else Inr \<lparr>dtype = d,
                      shape = (if 1 < length dims then map nat dims else [?n]),
                      buffer = b64, objects = [], c_contiguous = True\<rparr>)"
      unfolding fields rs by auto
  qed
qed

text \<open>
  The theorem at \<open>shape = [2, 2]\<close> with a payload of three \<open>uint8\<close> elements: the
  reshape fails.
\<close>

theorem decode_shape_check_witness:
  "map_of [(''__ndarray__'', PyStr ''AQID''), (''shape'', PyList (map PyInt [2, 2])), (''dtype'', PyStr ''uint8'')]
      ''__ndarray__'' = Some (PyStr ''AQID'')
   \<and> b64decode ''AQID'' = Inr [1, 2, 3]
   \<and> np_dtype ''uint8'' = Some UInt8
   \<and> (0 :: int) \<le> 2
   \<and> int (itemsize UInt8) * nonzero_product [2, 2] \<le> max_intp
   \<and> prod_list [2, 2] \<noteq> int (length [1, 2, 3 :: byte] div itemsize UInt8)
   \<and> decode_base64_dict
        [(''__ndarray__'', PyStr ''AQID''), (''shape'', PyList (map PyInt [2, 2])), (''dtype'', PyStr ''uint8'')] =
      Inl ValueError"
  using decode_shape_check[of
      "[(''__ndarray__'', PyStr ''AQID''), (''shape'', PyList (map PyInt [2, 2])), (''dtype'', PyStr ''uint8'')]"
      "''AQID''" "[1, 2, 3]" "''uint8''" UInt8 "PyList (map PyInt [2, 2])" "[2, 2]"]
  by (simp add: b64decode_123 np_dtype_uint8 nonzero_product_def max_intp_def)

text \<open>
  C4 as stated fails at its own example: \<open>shape = [4]\<close> with a payload of three
  \<open>uint8\<close> elements decodes, without an error, to the array \<open>[1, 2, 3]\<close>.
\<close>

theorem one_dim_shape_mismatch_counterexample:
  "decode_base64_dict
     [(''__ndarray__'', PyStr ''AQID''), (''shape'', PyList [PyInt 4]), (''dtype'', PyStr ''uint8'')] =
   Inr \<lparr>dtype = UInt8, shape = [3], buffer = [1, 2, 3], objects = [], c_contiguous = True\<rparr>
   \<and> prod_list [4 :: int] \<noteq> int (length [1, 2, 3 :: byte] div itemsize UInt8)"
  by (simp add: decode_base64_dict_def b64decode_123 np_dtype_uint8 np_fromstring_def)

section \<open>C5: temporal arrays\<close>



section \<open>C6: nested traversal\<close>

text \<open>
  C6. For every list or tuple in which no nested sequence is a non-empty sequence of
  arrays only, \<open>traverse_data\<close> returns the same nesting, each list or tuple as a list,
  with every float NaN replaced by \<open>"NaN"\<close>, \<open>+Inf\<close> by \<open>"Infinity"\<close>, \<open>-Inf\<close> by
  \<open>"-Infinity"\<close> and every other value unchanged, whatever \<open>is_numpy\<close> and
  \<open>use_numpy\<close> are. In particular \<open>[[1.0, NaN], [2.0, Infinity]]\<close> becomes
  \<open>[[1.0, "NaN"], [2.0, "Infinity"]]\<close>.
\<close>

theorem traverse_data_sanitizes:
  assumes "not_uniform_arrays (PyList datum)"
  shows "traverse_data settings is_numpy use_numpy datum = Inr (traverse_spec (PyList datum))"
  using assms traverse_both(1)[of datum settings is_numpy use_numpy] by simp

text \<open>The theorem at the input \<open>[[1.0, NaN], [2.0, Infinity]]\<close> of the claim.\<close>

theorem traverse_data_sanitizes_witness:
  "not_uniform_arrays
     (PyList [PyList [PyFloat (Fin 1), PyFloat NaN], PyList [PyFloat (Fin 2), PyFloat PosInf]])
   \<and> traverse_data \<lparr>use_binary_arrays = True, binary_array_cutoff = 0\<rparr> True True
        [PyList [PyFloat (Fin 1), PyFloat NaN], PyList [PyFloat (Fin 2), PyFloat PosInf]] =
      Inr (PyList [PyList [PyFloat (Fin 1), PyStr ''NaN''],
                   PyList [PyFloat (Fin 2), PyStr ''Infinity'']])"
  using traverse_data_sanitizes[of
      "[PyList [PyFloat (Fin 1), PyFloat NaN], PyList [PyFloat (Fin 2), PyFloat PosInf]]"
      "\<lparr>use_binary_arrays = True, binary_array_cutoff = 0\<rparr>" True True]
  by (simp add: sentinel_def)

section \<open>C8: shallow decoding of column data\<close>

text \<open>
  C8. \<open>decode_column_data\<close> returns \<open>new_data\<close> exactly when \<open>new_data\<close> has the keys of
  \<open>data\<close>, in order, and each value is decoded as \<open>column_decoded\<close> says: a Binary
  Envelope is replaced by the array it decodes to, a list is replaced by the list of its
  elements with each element that is a Binary Envelope replaced by its array and every
  other element, a nested list that holds envelopes included, unchanged, and every other
  value is unchanged.
\<close>

theorem decode_column_data_shallow:
  "decode_column_data data = Inr new_data \<longleftrightarrow> list_all2 entry_decoded data new_data"
proof (induction data arbitrary: new_data)
  case Nil
  then show ?case by auto
next
  case (Cons kv data)
  obtain k v where kv: "kv = (k, v)" by (cases kv)
  show ?case
  proof (cases new_data)
    case Nil
    then show ?thesis using kv by (auto split: sum.splits)
  next
    case (Cons kv' rest)
    obtain k' v' where kv': "kv' = (k', v')" by (cases kv')
    show ?thesis
      using Cons.IH[of rest] decode_column_iff[of v v'] kv kv' Cons
      by (auto simp add: entry_decoded_def split: sum.splits)
  qed
qed

text \<open>
  The theorem at a column set with an envelope, a list holding an envelope and a nested
  list with an envelope, a tuple holding an envelope, and a number: only the first two
  envelopes are decoded.
\<close>

theorem decode_column_data_shallow_witness:
  "decode_column_data
     [(''a'', PyDict [(''__ndarray__'', PyStr ''AQID''), (''shape'', PyList [PyInt 3]), (''dtype'', PyStr ''uint8'')]),
      (''b'', PyList [PyDict [(''__ndarray__'', PyStr ''AQID''), (''shape'', PyList [PyInt 3]), (''dtype'', PyStr ''uint8'')],
                      PyList [PyDict [(''__ndarray__'', PyStr ''AQID''), (''shape'', PyList [PyInt 3]), (''dtype'', PyStr ''uint8'')]]]),
      (''c'', PyTuple [PyDict [(''__ndarray__'', PyStr ''AQID''), (''shape'', PyList [PyInt 3]), (''dtype'', PyStr ''uint8'')]]),
      (''d'', PyInt 5)] =
   Inr [(''a'', PyArray (NDArray \<lparr>dtype = UInt8, shape = [3], buffer = [1, 2, 3], objects = [], c_contiguous = True\<rparr>)),
        (''b'', PyList [PyArray (NDArray \<lparr>dtype = UInt8, shape = [3], buffer = [1, 2, 3], objects = [], c_contiguous = True\<rparr>),
                        PyList [PyDict [(''__ndarray__'', PyStr ''AQID''), (''shape'', PyList [PyInt 3]), (''dtype'', PyStr ''uint8'')]]]),
        (''c'', PyTuple [PyDict [(''__ndarray__'', PyStr ''AQID''), (''shape'', PyList [PyInt 3]), (''dtype'', PyStr ''uint8'')]]),
        (''d'', PyInt 5)]"
  unfolding decode_column_data_shallow
  by (simp add: entry_decoded_def decode_envelope_123)

section \<open>C9: reshape only for more than one dimension\<close>

text \<open>
  C9. \<open>decode_base64_dict\<close> reshapes to the recorded shape only when that shape has more
  than one dimension. For a recorded shape of one dimension (or of none) the entries of
  the shape are never read: the returned array is the linear buffer, whose length is the
  decoded byte count divided by the element size of the dtype, whatever the recorded
  dimension says.
\<close>

theorem decode_reshape_only_multidimensional:
  assumes "map_of data ''__ndarray__'' = Some (PyStr s)"
    and "b64decode s = Inr b64"
    and "map_of data ''dtype'' = Some (PyStr name)"
    and "np_dtype name = Some d"
    and "map_of data ''shape'' = Some shp"
    and "shp = PyList (map PyInt dims) \<or> shp = PyTuple (map PyInt dims)"
    and "length b64 mod itemsize d = 0"
  shows "(1 < length dims \<longrightarrow>
            decode_base64_dict data =
              np_reshape \<lparr>dtype = d, shape = [length b64 div itemsize d], buffer = b64,
                           objects = [], c_contiguous = True\<rparr> dims) \<and>
         (length dims \<le> 1 \<longrightarrow>
            decode_base64_dict data =
              Inr \<lparr>dtype = d, shape = [length b64 div itemsize d], buffer = b64,
                    objects = [], c_contiguous = True\<rparr>)"
  unfolding decode_base64_dict_fields[OF assms(1-6)] using assms(7) by simp

text \<open>
  The theorem at an envelope that records \<open>shape = (7,)\<close> for a payload of one
  \<open>float64\<close> element: the decoded array has shape \<open>(1,)\<close>.
\<close>

theorem decode_reshape_only_multidimensional_witness:
  "map_of [(''__ndarray__'', PyStr ''AAAAAAAA8D8=''), (''shape'', PyTuple (map PyInt [7])), (''dtype'', PyStr ''float64'')]
      ''shape'' = Some (PyTuple (map PyInt [7]))
   \<and> b64decode ''AAAAAAAA8D8='' = Inr [0, 0, 0, 0, 0, 0, 0xF0, 0x3F]
   \<and> np_dtype ''float64'' = Some Float64
   \<and> length [0, 0, 0, 0, 0, 0, 0xF0, 0x3F :: byte] mod itemsize Float64 = 0
   \<and> length [7 :: int] \<le> 1
   \<and> decode_base64_dict
        [(''__ndarray__'', PyStr ''AAAAAAAA8D8=''), (''shape'', PyTuple (map PyInt [7])), (''dtype'', PyStr ''float64'')] =
      Inr \<lparr>dtype = Float64, shape = [1], buffer = [0, 0, 0, 0, 0, 0, 0xF0, 0x3F], objects = [], c_contiguous = True\<rparr>"
  using decode_reshape_only_multidimensional[of
      "[(''__ndarray__'', PyStr ''AAAAAAAA8D8=''), (''shape'', PyTuple (map PyInt [7])), (''dtype'', PyStr ''float64'')]"
      "''AAAAAAAA8D8=''" "[0, 0, 0, 0, 0, 0, 0xF0, 0x3F]" "''float64''" Float64 "PyTuple (map PyInt [7])" "[7]"]
  by (simp add: b64decode_one np_dtype_float64)

section \<open>C10: traversal rebuilds sequences as lists\<close>

text \<open>
  C10 (amended). Whenever \<open>traverse_data\<close> returns, it returns a list with one entry
  for each child of the input, in which every list or tuple child is rebuilt as a list,
  and so on through the lists and tuples inside it. With \<open>is_numpy\<close> and \<open>use_numpy\<close>
  true, a sequence whose children are all arrays, the empty sequence included, returns
  exactly the list of the results of \<open>transform_array\<close> on each array, and returns only
  if each of them does. With \<open>is_numpy\<close> or \<open>use_numpy\<close> false there is no fast path:
  such a sequence is copied with its arrays unchanged.
\<close>

theorem traverse_data_rebuilds_lists:
  "(\<forall>r. traverse_data settings is_numpy use_numpy datum = Inr r \<longrightarrow> rebuilt (PyList datum) r) \<and>
   (\<forall>r. traverse_data settings True True (map PyArray arrs) = Inr r \<longleftrightarrow>
      (\<exists>rs. r = PyList rs \<and> length rs = length arrs \<and>
            (\<forall>k < length arrs. transform_array settings (arrs ! k) False = Inr (rs ! k)))) \<and>
   (\<not> (is_numpy \<and> use_numpy) \<longrightarrow>
      traverse_data settings is_numpy use_numpy (map PyArray arrs) = Inr (PyList (map PyArray arrs)))"
  using traverse_rebuilt(1)[of settings is_numpy use_numpy datum]
    traverse_data_arrays[of settings arrs]
    traverse_data_without_numpy[of is_numpy use_numpy settings arrs]
  by blast

text \<open>
  The theorem at the sequence \<open>[(1, nan)]\<close> and at the one-array sequence
  \<open>[np.array([1, 2, 3], dtype='uint8')]\<close> with cutoff 5: the tuple is rebuilt as a list,
  the array takes the fast path when \<open>use_numpy\<close> is true and is copied when it is
  false.
\<close>

theorem traverse_data_rebuilds_lists_witness:
  "traverse_data \<lparr>use_binary_arrays = True, binary_array_cutoff = 5\<rparr> True False
     [PyTuple [PyInt 1, PyFloat NaN]] = Inr (PyList [PyList [PyInt 1, PyStr ''NaN'']])
   \<and> rebuilt (PyList [PyTuple [PyInt 1, PyFloat NaN]]) (PyList [PyList [PyInt 1, PyStr ''NaN'']])
   \<and> traverse_data \<lparr>use_binary_arrays = True, binary_array_cutoff = 5\<rparr> True True
       (map PyArray [NDArray \<lparr>dtype = UInt8, shape = [3], buffer = [1, 2, 3], objects = [],
                               c_contiguous = True\<rparr>]) =
     Inr (PyList [PyList [PyInt 1, PyInt 2, PyInt 3]])
   \<and> traverse_data \<lparr>use_binary_arrays = True, binary_array_cutoff = 5\<rparr> True False
       (map PyArray [NDArray \<lparr>dtype = UInt8, shape = [3], buffer = [1, 2, 3], objects = [],
                               c_contiguous = True\<rparr>]) =
     Inr (PyList (map PyArray [NDArray \<lparr>dtype = UInt8, shape = [3], buffer = [1, 2, 3],
                                         objects = [], c_contiguous = True\<rparr>]))"
  using traverse_data_rebuilds_lists[of
      "\<lparr>use_binary_arrays = True, binary_array_cutoff = 5\<rparr>" True False
      "[PyTuple [PyInt 1, PyFloat NaN]]"
      "[NDArray \<lparr>dtype = UInt8, shape = [3], buffer = [1, 2, 3], objects = [], c_contiguous = True\<rparr>]"]
    transform_array_123_list
  by (simp del: traverse_data.simps add: traverse_tuple_example)

text \<open>
  C10 as stated fails: with \<open>use_numpy\<close> false a sequence whose only child is the array
  \<open>np.array([1, 2, 3], dtype='uint8')\<close> does not take the fast path; the result holds
  the array itself, not the list \<open>[1, 2, 3]\<close> that \<open>transform_array\<close> gives for it.
\<close>

theorem traverse_data_use_numpy_counterexample:
  "list_all is_ndarray
     [PyArray (NDArray \<lparr>dtype = UInt8, shape = [3], buffer = [1, 2, 3], objects = [],
                         c_contiguous = True\<rparr>)]
   \<and> traverse_data \<lparr>use_binary_arrays = True, binary_array_cutoff = 5\<rparr> True False
       [PyArray (NDArray \<lparr>dtype = UInt8, shape = [3], buffer = [1, 2, 3], objects = [],
                           c_contiguous = True\<rparr>)] =
     Inr (PyList [PyArray (NDArray \<lparr>dtype = UInt8, shape = [3], buffer = [1, 2, 3],
                                     objects = [], c_contiguous = True\<rparr>)])
   \<and> transform_array \<lparr>use_binary_arrays = True, binary_array_cutoff = 5\<rparr>
       (NDArray \<lparr>dtype = UInt8, shape = [3], buffer = [1, 2, 3], objects = [],
                  c_contiguous = True\<rparr>) False =
     Inr (PyList [PyInt 1, PyInt 2, PyInt 3])
   \<and> PyList [PyArray (NDArray \<lparr>dtype = UInt8, shape = [3], buffer = [1, 2, 3],
                                 objects = [], c_contiguous = True\<rparr>)] \<noteq>
     PyList [PyList [PyInt 1, PyInt 2, PyInt 3]]"
  by (simp add: transform_array_123_list)

end
